theory Spec2Isabelle
  imports Main "HOL-Library.Word" "HOL-Library.Log_Nat"
begin

section \<open>The runtime the handlers run on\<close>

subsection \<open>Strings\<close>

text \<open>
  A string of the runtime is a sequence of 16-bit code units. \<open>js\<close> writes an ASCII
  literal as such a sequence.
\<close>

type_synonym jsstring = "16 word list"

definition js :: "string \<Rightarrow> jsstring" where
  "js s = map of_char s"

subsection \<open>Numbers\<close>

text \<open>
  A Number is a binary64 value: not-a-number, an infinity, negative zero, or a finite
  value, kept as the rational it denotes (\<open>Fin 0\<close> is positive zero). The finite values
  that occur are the results of \<open>round_double\<close>.
\<close>

datatype jsnum = NaN | PosInf | NegInf | NegZero | Fin rat

definition pow2 :: "int \<Rightarrow> rat" where
  "pow2 e = (if 0 \<le> e then 2 ^ nat e else 1 / 2 ^ nat (- e))"

definition round_half_even :: "rat \<Rightarrow> int" where
  "round_half_even x =
     (let f = \<lfloor>x\<rfloor>; d = x - of_int f
      in if d < 1 / 2 then f
         else if 1 / 2 < d then f + 1
         else if even f then f else f + 1)"

definition floor_log2 :: "rat \<Rightarrow> int" where
  \<comment> \<open>for \<open>0 < a\<close>: the \<open>e\<close> with \<open>2 ^ e \<le> a < 2 ^ (e + 1)\<close>\<close>
  "floor_log2 a =
     (let (p, q) = quotient_of a; d = bitlen p - bitlen q
      in if pow2 d \<le> a then d else d - 1)"

definition signed_zero :: "bool \<Rightarrow> jsnum" where
  "signed_zero neg = (if neg then NegZero else Fin 0)"

definition signed_inf :: "bool \<Rightarrow> jsnum" where
  "signed_inf neg = (if neg then NegInf else PosInf)"

definition round_double :: "bool \<Rightarrow> rat \<Rightarrow> jsnum" where
  \<comment> \<open>the binary64 value nearest to the magnitude \<open>a \<ge> 0\<close> with the sign \<open>neg\<close>, ties to
      even: 53 significant bits, least exponent \<open>-1022\<close>, overflow from \<open>2 ^ 1024\<close>\<close>
  "round_double neg a =
     (if a \<le> 0 then signed_zero neg
      else
        let e = max (floor_log2 a) (- 1022);
            q = pow2 (e - 52);
            n = round_half_even (a / q);
            v = of_int n * q
        in if pow2 1024 \<le> v then signed_inf neg
           else if n = 0 then signed_zero neg
           else Fin (if neg then - v else v))"

fun is_negative :: "jsnum \<Rightarrow> bool" where
  "is_negative NaN = False"
| "is_negative PosInf = False"
| "is_negative NegInf = True"
| "is_negative NegZero = True"
| "is_negative (Fin r) = (r < 0)"

fun is_infinite :: "jsnum \<Rightarrow> bool" where
  "is_infinite PosInf = True"
| "is_infinite NegInf = True"
| "is_infinite _ = False"

fun magnitude :: "jsnum \<Rightarrow> rat" where
  "magnitude (Fin r) = \<bar>r\<bar>"
| "magnitude _ = 0"

fun is_zero :: "jsnum \<Rightarrow> bool" where
  "is_zero NegZero = True"
| "is_zero (Fin r) = (r = 0)"
| "is_zero _ = False"

definition js_times :: "jsnum \<Rightarrow> jsnum \<Rightarrow> jsnum" where
  \<comment> \<open>the operator \<open>*\<close> on two Numbers\<close>
  "js_times x y =
     (if x = NaN \<or> y = NaN then NaN
      else
        let neg = (is_negative x \<noteq> is_negative y)
        in if is_infinite x \<or> is_infinite y
           then (if is_zero x \<or> is_zero y then NaN else signed_inf neg)
           else round_double neg (magnitude x * magnitude y))"

subsection \<open>Values\<close>

text \<open>
  The values the handlers meet: what \<open>JSON.parse\<close> and the query and body parsers
  build (null, booleans, Numbers, strings, arrays, plain objects with their members in
  insertion order), \<open>undefined\<close> for what is missing, and the built-in objects a plain
  object inherits members from.
\<close>

datatype builtin = ObjectConstructor | ObjectPrototype | ObjectMethod jsstring

datatype jsval =
    JUndefined
  | JNull
  | JBool bool
  | JNum jsnum
  | JStr jsstring
  | JArr "jsval list"
  | JObj "(jsstring \<times> jsval) list"
  | JBuiltin builtin

datatype exn = TypeError | SyntaxError | ServiceError | NetworkError | RenderError

fun truthy :: "jsval \<Rightarrow> bool" where
  "truthy JUndefined = False"
| "truthy JNull = False"
| "truthy (JBool b) = b"
| "truthy (JNum n) = (n \<noteq> NaN \<and> \<not> is_zero n)"
| "truthy (JStr s) = (s \<noteq> [])"
| "truthy (JArr _) = True"
| "truthy (JObj _) = True"
| "truthy (JBuiltin _) = True"

fun num_equal :: "jsnum \<Rightarrow> jsnum \<Rightarrow> bool" where
  "num_equal NaN _ = False"
| "num_equal _ NaN = False"
| "num_equal x y = ((is_zero x \<and> is_zero y) \<or> x = y)"

fun strict_eq :: "jsval \<Rightarrow> jsval \<Rightarrow> bool" where
  \<comment> \<open>\<open>===\<close>; two arrays or objects built apart are never the same object\<close>
  "strict_eq JUndefined JUndefined = True"
| "strict_eq JNull JNull = True"
| "strict_eq (JBool a) (JBool b) = (a = b)"
| "strict_eq (JNum a) (JNum b) = num_equal a b"
| "strict_eq (JStr a) (JStr b) = (a = b)"
| "strict_eq (JBuiltin a) (JBuiltin b) = (a = b)"
| "strict_eq _ _ = False"

text \<open>
  Reading a member under a name the program text fixes. The names the handlers read are
  \<open>entry\<close>, \<open>changes\<close>, \<open>value\<close>, \<open>messages\<close>, \<open>from\<close>, \<open>text\<close>, \<open>body\<close>, \<open>product\<close>,
  \<open>quantity\<close>, \<open>unit\<close> and \<open>price\<close>; none of them is a member of a built-in prototype or
  of the built-in objects, so only a plain object's own members answer to them. Reading
  from \<open>undefined\<close> or \<open>null\<close> throws.
\<close>

datatype field =
    K_entry | K_changes | K_value | K_messages | K_from | K_text | K_body
  | K_product | K_quantity | K_unit | K_price

fun field_name :: "field \<Rightarrow> jsstring" where
  "field_name K_entry = js ''entry''"
| "field_name K_changes = js ''changes''"
| "field_name K_value = js ''value''"
| "field_name K_messages = js ''messages''"
| "field_name K_from = js ''from''"
| "field_name K_text = js ''text''"
| "field_name K_body = js ''body''"
| "field_name K_product = js ''product''"
| "field_name K_quantity = js ''quantity''"
| "field_name K_unit = js ''unit''"
| "field_name K_price = js ''price''"

definition own :: "(jsstring \<times> jsval) list \<Rightarrow> jsstring \<Rightarrow> jsval" where
  "own ms k = (case map_of ms k of None \<Rightarrow> JUndefined | Some v \<Rightarrow> v)"

fun get :: "jsval \<Rightarrow> field \<Rightarrow> exn + jsval" where
  "get JUndefined k = Inl TypeError"
| "get JNull k = Inl TypeError"
| "get (JObj ms) k = Inr (own ms (field_name k))"
| "get _ k = Inr JUndefined"

fun index0 :: "jsval \<Rightarrow> exn + jsval" where
  \<comment> \<open>\<open>v[0]\<close>\<close>
  "index0 JUndefined = Inl TypeError"
| "index0 JNull = Inl TypeError"
| "index0 (JArr []) = Inr JUndefined"
| "index0 (JArr (x # xs)) = Inr x"
| "index0 (JStr []) = Inr JUndefined"
| "index0 (JStr (c # cs)) = Inr (JStr [c])"
| "index0 (JObj ms) = Inr (own ms (js ''0''))"
| "index0 _ = Inr JUndefined"

text \<open>
  Reading a plain object under a computed name follows the prototype chain: a name the
  object does not own is looked up in \<open>Object.prototype\<close>.
\<close>

definition object_prototype_members :: "jsstring list" where
  "object_prototype_members =
     [js ''hasOwnProperty'', js ''isPrototypeOf'', js ''propertyIsEnumerable'',
      js ''toLocaleString'', js ''toString'', js ''valueOf'',
      js ''__defineGetter__'', js ''__defineSetter__'',
      js ''__lookupGetter__'', js ''__lookupSetter__'']"

definition object_prototype :: "jsstring \<Rightarrow> jsval" where
  "object_prototype k =
     (if k = js ''constructor'' then JBuiltin ObjectConstructor
      else if k = js ''__proto__'' then JBuiltin ObjectPrototype
      else if k \<in> set object_prototype_members then JBuiltin (ObjectMethod k)
      else JUndefined)"

definition lookup :: "(jsstring \<times> jsval) list \<Rightarrow> jsstring \<Rightarrow> jsval" where
  \<comment> \<open>\<open>obj[k]\<close> on a plain object with the members \<open>ms\<close>\<close>
  "lookup ms k = (case map_of ms k of Some v \<Rightarrow> v | None \<Rightarrow> object_prototype k)"

subsection \<open>Letter case\<close>

text \<open>
  \<open>toLowerCase\<close> and \<open>toUpperCase\<close>, code unit by code unit. The tables are those of the
  runtime for the code units below U+0180 (Basic Latin, Latin-1 Supplement, Latin
  Extended-A), where one code unit can become two. From U+0180 on \<open>lower_unit\<close> maps
  only the three code units whose lower case lies below U+0180 (capital sharp s, the
  Kelvin sign, the Angstrom sign): the runtime maps the other cased letters of that
  range to code units of that range again, here they stay as they are, and either way
  the result is no key of a table whose keys are ASCII. \<open>upper_unit\<close> leaves every code
  unit from U+0180 on as it is; the handlers never call \<open>toUpperCase\<close>.
\<close>

definition lower_unit :: "16 word \<Rightarrow> jsstring" where
  "lower_unit c =
     (if 0x41 \<le> c \<and> c \<le> 0x5A then [c + 0x20]
      else if 0xC0 \<le> c \<and> c \<le> 0xDE \<and> c \<noteq> 0xD7 then [c + 0x20]
      else if c = 0x130 then [0x69, 0x307]
      else if c = 0x178 then [0xFF]
      else if (0x100 \<le> c \<and> c \<le> 0x12F \<or> 0x132 \<le> c \<and> c \<le> 0x137
               \<or> 0x14A \<le> c \<and> c \<le> 0x177) \<and> \<not> bit c 0 then [c + 1]
      else if (0x139 \<le> c \<and> c \<le> 0x148 \<or> 0x179 \<le> c \<and> c \<le> 0x17E) \<and> bit c 0
        then [c + 1]
      else if c = 0x1E9E then [0xDF]
      else if c = 0x212A then [0x6B]
      else if c = 0x212B then [0xE5]
      else [c])"

definition upper_unit :: "16 word \<Rightarrow> jsstring" where
  "upper_unit c =
     (if 0x61 \<le> c \<and> c \<le> 0x7A then [c - 0x20]
      else if c = 0xB5 then [0x39C]
      else if c = 0xDF then [0x53, 0x53]
      else if 0xE0 \<le> c \<and> c \<le> 0xFE \<and> c \<noteq> 0xF7 then [c - 0x20]
      else if c = 0xFF then [0x178]
      else if c = 0x131 then [0x49]
      else if c = 0x149 then [0x2BC, 0x4E]
      else if c = 0x17F then [0x53]
      else if (0x100 \<le> c \<and> c \<le> 0x12F \<or> 0x132 \<le> c \<and> c \<le> 0x137
               \<or> 0x14A \<le> c \<and> c \<le> 0x177) \<and> bit c 0 then [c - 1]
      else if (0x139 \<le> c \<and> c \<le> 0x148 \<or> 0x179 \<le> c \<and> c \<le> 0x17E) \<and> \<not> bit c 0
        then [c - 1]
      else [c])"

definition toLowerCase :: "jsstring \<Rightarrow> jsstring" where
  "toLowerCase s = concat (map lower_unit s)"

definition toUpperCase :: "jsstring \<Rightarrow> jsstring" where
  "toUpperCase s = concat (map upper_unit s)"

definition is_ascii :: "jsstring \<Rightarrow> bool" where
  "is_ascii s = list_all (\<lambda>c. c < 0x80) s"

subsection \<open>Numerals in strings\<close>

definition is_digit :: "16 word \<Rightarrow> bool" where
  "is_digit c = (0x30 \<le> c \<and> c \<le> 0x39)"

definition digit_value :: "16 word \<Rightarrow> nat" where
  \<comment> \<open>the value of a digit of a base up to sixteen\<close>
  "digit_value c =
     (if 0x30 \<le> c \<and> c \<le> 0x39 then unat c - 0x30
      else if 0x61 \<le> c \<and> c \<le> 0x66 then unat c - 0x61 + 10
      else if 0x41 \<le> c \<and> c \<le> 0x46 then unat c - 0x41 + 10
      else 16)"

definition digits_value :: "nat \<Rightarrow> jsstring \<Rightarrow> nat" where
  "digits_value base ds = foldl (\<lambda>acc c. acc * base + digit_value c) 0 ds"

definition all_digits :: "nat \<Rightarrow> jsstring \<Rightarrow> bool" where
  "all_digits base ds = (ds \<noteq> [] \<and> list_all (\<lambda>c. digit_value c < base) ds)"

definition pow10 :: "int \<Rightarrow> rat" where
  "pow10 e = (if 0 \<le> e then 10 ^ nat e else 1 / 10 ^ nat (- e))"

definition exponent_part :: "jsstring \<Rightarrow> int option" where
  \<comment> \<open>what follows the digits: nothing, or \<open>e\<close> or \<open>E\<close>, an optional sign and digits\<close>
  "exponent_part s =
     (case s of
        [] \<Rightarrow> Some 0
      | c # t \<Rightarrow>
          if c = 0x65 \<or> c = 0x45 then
            (let (neg, ds) =
                   (case t of
                      [] \<Rightarrow> (False, [])
                    | d # u \<Rightarrow>
                        if d = 0x2D then (True, u)
                        else if d = 0x2B then (False, u)
                        else (False, t))
             in if all_digits 10 ds
                then Some (if neg then - int (digits_value 10 ds) else int (digits_value 10 ds))
                else None)
          else None)"

record decimal =
  int_digits :: jsstring
  has_point :: bool
  frac_digits :: jsstring
  exponent :: int

definition scan_decimal :: "jsstring \<Rightarrow> decimal option" where
  \<comment> \<open>digits, an optional point and digits, an optional exponent, and nothing else\<close>
  "scan_decimal s =
     (let ip = takeWhile is_digit s; r1 = dropWhile is_digit s;
          pt = (r1 \<noteq> [] \<and> hd r1 = 0x2E);
          fp = (if pt then takeWhile is_digit (tl r1) else []);
          r2 = (if pt then dropWhile is_digit (tl r1) else r1)
      in case exponent_part r2 of
           None \<Rightarrow> None
         | Some e \<Rightarrow>
             Some \<lparr>int_digits = ip, has_point = pt, frac_digits = fp, exponent = e\<rparr>)"

definition decimal_value :: "decimal \<Rightarrow> rat" where
  "decimal_value d =
     of_nat (digits_value 10 (int_digits d @ frac_digits d))
       * pow10 (exponent d - int (length (frac_digits d)))"

definition is_space :: "16 word \<Rightarrow> bool" where
  \<comment> \<open>white space and line terminators\<close>
  "is_space c =
     (c \<in> {0x9, 0xA, 0xB, 0xC, 0xD, 0x20, 0xA0, 0x1680, 0x2028, 0x2029, 0x202F, 0x205F,
            0x3000, 0xFEFF}
      \<or> 0x2000 \<le> c \<and> c \<le> 0x200A)"

definition trim :: "jsstring \<Rightarrow> jsstring" where
  "trim s = rev (dropWhile is_space (rev (dropWhile is_space s)))"

definition radix_literal :: "jsstring \<Rightarrow> (nat \<times> jsstring) option" where
  \<comment> \<open>\<open>0x\<close>, \<open>0o\<close>, \<open>0b\<close> in either case, and the digits after it\<close>
  "radix_literal s =
     (case s of
        z # p # ds \<Rightarrow>
          if z \<noteq> 0x30 then None
          else if p = 0x78 \<or> p = 0x58 then Some (16, ds)
          else if p = 0x6F \<or> p = 0x4F then Some (8, ds)
          else if p = 0x62 \<or> p = 0x42 then Some (2, ds)
          else None
      | _ \<Rightarrow> None)"

definition sign_and_rest :: "jsstring \<Rightarrow> bool \<times> jsstring" where
  \<comment> \<open>an optional sign taken off the front\<close>
  "sign_and_rest t =
     (case t of
        [] \<Rightarrow> (False, [])
      | c # u \<Rightarrow> if c = 0x2D then (True, u) else if c = 0x2B then (False, u) else (False, t))"

definition decimal_literal :: "jsstring \<Rightarrow> jsnum" where
  \<comment> \<open>a signed \<open>Infinity\<close> or a signed decimal numeral with a digit in it\<close>
  "decimal_literal t =
     (let (neg, u) = sign_and_rest t
      in if u = js ''Infinity'' then signed_inf neg
         else (case scan_decimal u of
                 None \<Rightarrow> NaN
               | Some d \<Rightarrow>
                   if int_digits d = [] \<and> frac_digits d = [] then NaN
                   else round_double neg (decimal_value d)))"

definition string_to_number :: "jsstring \<Rightarrow> jsnum" where
  \<comment> \<open>the Number a string converts to\<close>
  "string_to_number s =
     (let t = trim s
      in if t = [] then Fin 0
         else (case radix_literal t of
                 Some (base, ds) \<Rightarrow>
                   (if all_digits base ds
                    then round_double False (of_nat (digits_value base ds))
                    else NaN)
               | None \<Rightarrow> decimal_literal t))"

text \<open>
  Converting a value to a string or to a Number first makes a primitive of it, through
  its \<open>valueOf\<close> and \<open>toString\<close> members. A plain object inherits both; the inherited
  \<open>valueOf\<close> gives the object back, so the conversion rests on \<open>toString\<close>. An object
  that has a member of its own under the name \<open>toString\<close> hides the inherited one, and
  a member read from JSON cannot be called: the conversion throws. An array converts
  through the strings of all its elements but \<open>null\<close> and \<open>undefined\<close>, and throws when one
  of them does.
\<close>

fun unprintable :: "jsval \<Rightarrow> bool" where
  \<comment> \<open>the conversion of the value to a primitive throws a TypeError\<close>
  "unprintable (JObj ms) = (map_of ms (js ''toString'') \<noteq> None)"
| "unprintable (JArr xs) = list_ex unprintable xs"
| "unprintable _ = False"

fun number_of :: "jsval \<Rightarrow> jsnum" where
  \<comment> \<open>the Number a value converts to when the conversion does not throw; an array
      converts through the string that joins its elements with commas, and a Number
      written out as a string reads back as itself, negative zero as zero\<close>
  "number_of JUndefined = NaN"
| "number_of JNull = Fin 0"
| "number_of (JBool b) = (if b then Fin 1 else Fin 0)"
| "number_of (JNum n) = n"
| "number_of (JStr s) = string_to_number s"
| "number_of (JArr []) = Fin 0"
| "number_of (JArr [JUndefined]) = Fin 0"
| "number_of (JArr [JNull]) = Fin 0"
| "number_of (JArr [JNum n]) = (if n = NegZero then Fin 0 else n)"
| "number_of (JArr [JStr s]) = string_to_number s"
| "number_of (JArr [JArr xs]) = number_of (JArr xs)"
| "number_of (JArr _) = NaN"
| "number_of (JObj _) = NaN"
| "number_of (JBuiltin _) = NaN"

definition to_number :: "jsval \<Rightarrow> exn + jsnum" where
  \<comment> \<open>the conversion of an operand of \<open>*\<close> to a Number\<close>
  "to_number v = (if unprintable v then Inl TypeError else Inr (number_of v))"

definition to_string_throws :: "jsval list \<Rightarrow> bool" where
  \<comment> \<open>a template literal with these values in it throws\<close>
  "to_string_throws vs = list_ex unprintable vs"

subsection \<open>\<open>JSON.parse\<close>\<close>

datatype token =
    TLBrace | TRBrace | TLBracket | TRBracket | TColon | TComma
  | TString jsstring | TNumber jsnum | TTrue | TFalse | TNull

definition simple_escape :: "16 word \<Rightarrow> 16 word option" where
  "simple_escape e =
     (if e = 0x22 \<or> e = 0x5C \<or> e = 0x2F then Some e
      else if e = 0x62 then Some 0x8
      else if e = 0x66 then Some 0xC
      else if e = 0x6E then Some 0xA
      else if e = 0x72 then Some 0xD
      else if e = 0x74 then Some 0x9
      else None)"

fun lex_string :: "jsstring \<Rightarrow> jsstring \<Rightarrow> (jsstring \<times> jsstring) option" where
  \<comment> \<open>the input after an opening quote, and the code units read so far, last first:
      the string and the input after its closing quote\<close>
  "lex_string [] acc = None"
| "lex_string (c # cs) acc =
     (if c = 0x22 then Some (rev acc, cs)
      else if c = 0x5C then
        (case cs of
           [] \<Rightarrow> None
         | e # cs' \<Rightarrow>
             if e = 0x75 then
               (case cs' of
                  h1 # h2 # h3 # h4 # cs'' \<Rightarrow>
                    if all_digits 16 [h1, h2, h3, h4]
                    then lex_string cs'' (of_nat (digits_value 16 [h1, h2, h3, h4]) # acc)
                    else None
                | _ \<Rightarrow> None)
             else
               (case simple_escape e of
                  None \<Rightarrow> None
                | Some u \<Rightarrow> lex_string cs' (u # acc)))
      else if c < 0x20 then None
      else lex_string cs (c # acc))"

definition is_number_unit :: "16 word \<Rightarrow> bool" where
  "is_number_unit c = (is_digit c \<or> c \<in> {0x2B, 0x2D, 0x2E, 0x45, 0x65})"

definition json_number :: "jsstring \<Rightarrow> jsnum option" where
  \<comment> \<open>an optional minus, digits without a leading zero, an optional fraction and
      exponent\<close>
  "json_number s =
     (let neg = (s \<noteq> [] \<and> hd s = 0x2D); u = (if neg then tl s else s)
      in case scan_decimal u of
           None \<Rightarrow> None
         | Some d \<Rightarrow>
             if int_digits d = [] then None
             else if hd (int_digits d) = 0x30 \<and> length (int_digits d) \<noteq> 1 then None
             else if has_point d \<and> frac_digits d = [] then None
             else Some (round_double neg (decimal_value d)))"

lemma lex_string_shorter:
  "lex_string cs acc = Some (s, rest) \<Longrightarrow> length rest < Suc (length cs)"
proof (induction cs acc rule: lex_string.induct)
  case (1 acc)
  then show ?case by simp
next
  case (2 c cs acc)
  show ?case
  proof (cases "c = 0x22")
    case True
    with 2(4) show ?thesis by simp
  next
    case quote: False
    show ?thesis
    proof (cases "c = 0x5C")
      case False
      with quote 2(3,4) show ?thesis
        by (fastforce split: if_splits)
    next
      case True
      then obtain e cs' where cs: "cs = e # cs'"
        using quote 2(4) by (cases cs) auto
      show ?thesis
      proof (cases "e = 0x75")
        case False
        with quote True cs 2(2,4) show ?thesis
          by (fastforce split: option.splits)
      next
        case u: True
        then obtain h1 h2 h3 h4 cs'' where cs': "cs' = h1 # h2 # h3 # h4 # cs''"
          using quote True cs 2(4) by (auto split: list.splits)
        with quote True cs u 2(1,4) show ?thesis
          by (fastforce split: if_splits)
      qed
    qed
  qed
qed

function lex :: "jsstring \<Rightarrow> token list option" where
  "lex [] = Some []"
| "lex (c # cs) =
     (if c = 0x20 \<or> c = 0x9 \<or> c = 0xA \<or> c = 0xD then lex cs
      else if c = 0x7B then map_option (Cons TLBrace) (lex cs)
      else if c = 0x7D then map_option (Cons TRBrace) (lex cs)
      else if c = 0x5B then map_option (Cons TLBracket) (lex cs)
      else if c = 0x5D then map_option (Cons TRBracket) (lex cs)
      else if c = 0x3A then map_option (Cons TColon) (lex cs)
      else if c = 0x2C then map_option (Cons TComma) (lex cs)
      else if c = 0x22 then
        (case lex_string cs [] of
           None \<Rightarrow> None
         | Some (s, rest) \<Rightarrow> map_option (Cons (TString s)) (lex rest))
      else if c = 0x2D \<or> is_digit c then
        (case json_number (c # takeWhile is_number_unit cs) of
           None \<Rightarrow> None
         | Some n \<Rightarrow> map_option (Cons (TNumber n)) (lex (dropWhile is_number_unit cs)))
      else if take 4 (c # cs) = js ''true'' then map_option (Cons TTrue) (lex (drop 3 cs))
      else if take 5 (c # cs) = js ''false'' then map_option (Cons TFalse) (lex (drop 4 cs))
      else if take 4 (c # cs) = js ''null'' then map_option (Cons TNull) (lex (drop 3 cs))
      else None)"
  by pat_completeness auto
termination
proof (relation "measure length")
  show "wf (measure length)" by simp
next
  fix c :: "16 word" and cs x2 s rest
  assume "lex_string cs [] = Some x2" and "(s, rest) = x2"
  then have "lex_string cs [] = Some (s, rest)" by simp
  then have "length rest < Suc (length cs)" by (rule lex_string_shorter)
  then show "(rest, c # cs) \<in> measure length" by simp
next
  fix c :: "16 word" and cs :: jsstring
  have "length (dropWhile is_number_unit cs) \<le> length cs"
    by (rule length_dropWhile_le)
  then show "(dropWhile is_number_unit cs, c # cs) \<in> measure length" by simp
qed simp_all

definition obj_put :: "(jsstring \<times> jsval) list \<Rightarrow> jsstring \<Rightarrow> jsval \<Rightarrow> (jsstring \<times> jsval) list" where
  \<comment> \<open>a member read again under a name already there replaces the value in place\<close>
  "obj_put ms k v =
     (if k \<in> set (map fst ms) then map (\<lambda>(k', v'). if k' = k then (k', v) else (k', v')) ms
      else ms @ [(k, v)])"

datatype frame = ArrF "jsval list" | ObjF "(jsstring \<times> jsval) list" jsstring

datatype pstate =
    Value "frame list"
  | ArrStart "frame list"
  | ArrNext "jsval list" "frame list"
  | ObjStart "frame list"
  | ObjKey "(jsstring \<times> jsval) list" "frame list"
  | ObjColon "(jsstring \<times> jsval) list" jsstring "frame list"
  | ObjNext "(jsstring \<times> jsval) list" "frame list"
  | Done jsval

fun complete :: "jsval \<Rightarrow> frame list \<Rightarrow> pstate" where
  \<comment> \<open>a value has been read: it is the whole text's, or goes into the container open
      around it\<close>
  "complete v [] = Done v"
| "complete v (ArrF es # st) = ArrNext (es @ [v]) st"
| "complete v (ObjF ms k # st) = ObjNext (obj_put ms k v) st"

fun start_value :: "token \<Rightarrow> frame list \<Rightarrow> pstate option" where
  "start_value (TString s) st = Some (complete (JStr s) st)"
| "start_value (TNumber n) st = Some (complete (JNum n) st)"
| "start_value TTrue st = Some (complete (JBool True) st)"
| "start_value TFalse st = Some (complete (JBool False) st)"
| "start_value TNull st = Some (complete JNull st)"
| "start_value TLBracket st = Some (ArrStart st)"
| "start_value TLBrace st = Some (ObjStart st)"
| "start_value _ st = None"

fun step :: "pstate \<Rightarrow> token \<Rightarrow> pstate option" where
  "step (Value st) t = start_value t st"
| "step (ArrStart st) t =
     (if t = TRBracket then Some (complete (JArr []) st) else start_value t (ArrF [] # st))"
| "step (ArrNext es st) t =
     (if t = TComma then Some (Value (ArrF es # st))
      else if t = TRBracket then Some (complete (JArr es) st)
      else None)"
| "step (ObjStart st) t =
     (case t of
        TRBrace \<Rightarrow> Some (complete (JObj []) st)
      | TString k \<Rightarrow> Some (ObjColon [] k st)
      | _ \<Rightarrow> None)"
| "step (ObjKey ms st) t =
     (case t of TString k \<Rightarrow> Some (ObjColon ms k st) | _ \<Rightarrow> None)"
| "step (ObjColon ms k st) t =
     (if t = TColon then Some (Value (ObjF ms k # st)) else None)"
| "step (ObjNext ms st) t =
     (if t = TComma then Some (ObjKey ms st)
      else if t = TRBrace then Some (complete (JObj ms) st)
      else None)"
| "step (Done v) t = None"

fun run :: "pstate \<Rightarrow> token list \<Rightarrow> pstate option" where
  "run p [] = Some p"
| "run p (t # ts) = (case step p t of None \<Rightarrow> None | Some p' \<Rightarrow> run p' ts)"

definition JSON_parse :: "jsstring \<Rightarrow> exn + jsval" where
  "JSON_parse text =
     (case lex text of
        None \<Rightarrow> Inl SyntaxError
      | Some ts \<Rightarrow>
          (case run (Value []) ts of
             Some (Done v) \<Rightarrow> Inr v
           | _ \<Rightarrow> Inl SyntaxError))"

subsection \<open>Reading members, operators\<close>

fun nullish :: "jsval \<Rightarrow> bool" where
  "nullish JUndefined = True"
| "nullish JNull = True"
| "nullish _ = False"

definition then_get :: "exn + jsval \<Rightarrow> field \<Rightarrow> exn + jsval" where
  \<comment> \<open>\<open>e.k\<close> where evaluating \<open>e\<close> may throw\<close>
  "then_get r k = (case r of Inl e \<Rightarrow> Inl e | Inr v \<Rightarrow> get v k)"

definition then_index0 :: "exn + jsval \<Rightarrow> exn + jsval" where
  \<comment> \<open>\<open>e[0]\<close> where evaluating \<open>e\<close> may throw\<close>
  "then_index0 r = (case r of Inl e \<Rightarrow> Inl e | Inr v \<Rightarrow> index0 v)"

definition js_and :: "exn + jsval \<Rightarrow> exn + jsval \<Rightarrow> exn + jsval" where
  \<comment> \<open>\<open>a && b\<close>: \<open>b\<close> is evaluated only when \<open>a\<close> is truthy\<close>
  "js_and a b = (case a of Inl e \<Rightarrow> Inl e | Inr v \<Rightarrow> if truthy v then b else Inr v)"

definition js_or :: "jsval \<Rightarrow> jsval \<Rightarrow> jsval" where
  \<comment> \<open>\<open>a || b\<close> on two values\<close>
  "js_or a b = (if truthy a then a else b)"

definition js_mul :: "jsval \<Rightarrow> jsval \<Rightarrow> exn + jsnum" where
  \<comment> \<open>\<open>a * b\<close>: the left operand is converted to a Number, then the right one\<close>
  "js_mul a b =
     (case to_number a of
        Inl e \<Rightarrow> Inl e
      | Inr x \<Rightarrow> (case to_number b of Inl e \<Rightarrow> Inl e | Inr y \<Rightarrow> Inr (js_times x y)))"

function show_nat :: "nat \<Rightarrow> jsstring" where
  \<comment> \<open>a non-negative integer in a template literal\<close>
  "show_nat n =
     (if n < 10 then [of_nat (0x30 + n)]
      else show_nat (n div 10) @ [of_nat (0x30 + n mod 10)])"
  by pat_completeness auto
termination
  by (relation "measure id") auto

section \<open>What the handlers do to the outside\<close>

text \<open>
  An awaited call of an outside service resolves, rejects or never settles (no call has
  a timeout). A computation of a handler performs calls in order and then returns,
  throws or hangs on a call that never settles. Writes to the console are left out.
\<close>

datatype 'a settled = Resolved 'a | Rejected exn | Pending

datatype 'a outcome = Returns 'a | Throws exn | Hangs

record order =
  product :: jsval
  quantity :: jsval
  unit :: jsval
  price :: jsval
  total :: jsnum

datatype wa_text =
    Lit jsstring
  | OrderConfirmed jsval jsnum
    \<comment> \<open>the confirmation template with the values of \<open>order.product\<close> and \<open>order.total\<close>\<close>

datatype effect =
    Generate jsval
    \<comment> \<open>\<open>generateContent\<close> on the prompt template with this message in it\<close>
  | SendText jsval wa_text
    \<comment> \<open>the POST of a text message to a recipient\<close>
  | Invoice order jsstring
    \<comment> \<open>the invoice of an order written to a file; the file is opened before the
        lines of the invoice are made\<close>
  | SendDocument jsval jsstring jsstring
    \<comment> \<open>the POST of a document message: recipient, link, caption\<close>

type_synonym 'a io = "effect list \<times> 'a outcome"

definition ret :: "'a \<Rightarrow> 'a io" where
  "ret v = ([], Returns v)"

definition pure :: "exn + 'a \<Rightarrow> 'a io" where
  "pure r = ([], case r of Inl e \<Rightarrow> Throws e | Inr v \<Rightarrow> Returns v)"

definition await :: "effect \<Rightarrow> 'a settled \<Rightarrow> 'a io" where
  "await eff s =
     ([eff], case s of Resolved v \<Rightarrow> Returns v | Rejected e \<Rightarrow> Throws e | Pending \<Rightarrow> Hangs)"

definition bind :: "'a io \<Rightarrow> ('a \<Rightarrow> 'b io) \<Rightarrow> 'b io" where
  "bind m f =
     (case m of
        (es, Returns v) \<Rightarrow> (case f v of (es', r) \<Rightarrow> (es @ es', r))
      | (es, Throws e) \<Rightarrow> (es, Throws e)
      | (es, Hangs) \<Rightarrow> (es, Hangs))"

definition catch :: "'a io \<Rightarrow> (exn \<Rightarrow> 'a io) \<Rightarrow> 'a io" where
  \<comment> \<open>\<open>try { m } catch (err) { h }\<close>\<close>
  "catch m h =
     (case m of
        (es, Throws e) \<Rightarrow> (case h e of (es', r) \<Rightarrow> (es @ es', r))
      | _ \<Rightarrow> m)"

record env =
  VERIFY_TOKEN :: jsval
    \<comment> \<open>\<open>process.env.WHATSAPP_VERIFY_TOKEN\<close>: a string, or \<open>undefined\<close> when unset\<close>
  generateContent :: "jsval \<Rightarrow> jsstring settled"
    \<comment> \<open>the model's answer to the prompt for a message: the text of its response, or
        the fault of the call or of reading the text\<close>
  axios_post :: "effect \<Rightarrow> unit settled"
    \<comment> \<open>what becomes of a POST to the messaging platform\<close>
  pdf :: "order \<Rightarrow> jsstring \<Rightarrow> unit settled"
    \<comment> \<open>what becomes of writing an invoice: the promise resolves on the document's
        \<open>finish\<close> event\<close>
  Date_now :: nat

datatype response = SendStatus nat | Send nat jsval

record query =
  hub_mode :: jsval
  hub_verify_token :: jsval
  hub_challenge :: jsval

section \<open>The first file\<close>

definition PRODUCTS :: "(jsstring \<times> jsval) list" where
  "PRODUCTS =
     [(js ''sugar'', JObj [(js ''price'', JNum (Fin 40))]),
      (js ''oil'', JObj [(js ''price'', JNum (Fin 120))]),
      (js ''rice'', JObj [(js ''price'', JNum (Fin 60))])]"

definition parseOrderAI :: "env \<Rightarrow> jsval \<Rightarrow> jsval io" where
  \<comment> \<open>the prompt template converts \<open>message\<close> to a string inside the \<open>try\<close>, before the
      model is called\<close>
  "parseOrderAI env message =
     catch
       (if to_string_throws [message] then pure (Inl TypeError)
        else bind (await (Generate message) (generateContent env message))
               (\<lambda>answer. pure (JSON_parse answer)))
       (\<lambda>err. ret JNull)"

definition sendWhatsapp :: "env \<Rightarrow> jsval \<Rightarrow> wa_text \<Rightarrow> unit io" where
  "sendWhatsapp env to txt = await (SendText to txt) (axios_post env (SendText to txt))"

definition generateInvoice :: "env \<Rightarrow> order \<Rightarrow> jsstring \<Rightarrow> jsstring io" where
  \<comment> \<open>the lines of the invoice are templates with the members of the order in them; a
      throw inside the promise's executor rejects the promise\<close>
  "generateInvoice env ord fileName =
     (if to_string_throws [product ord, quantity ord, unit ord, price ord]
      then ([Invoice ord fileName], Throws TypeError)
      else bind (await (Invoice ord fileName) (pdf env ord fileName))
             (\<lambda>_. ret (js ''./'' @ fileName)))"

definition get_webhook :: "env \<Rightarrow> query \<Rightarrow> response" where
  "get_webhook env q =
     (let mode = hub_mode q; token = hub_verify_token q; challenge = hub_challenge q
      in if truthy mode \<and> truthy token then
           (if strict_eq mode (JStr (js ''subscribe'')) \<and> strict_eq token (VERIFY_TOKEN env)
            then Send 200 challenge
            else SendStatus 403)
         else SendStatus 400)"

text \<open>The steps of the POST handler, in the order of its text.\<close>

definition has_messages :: "jsval \<Rightarrow> exn + jsval" where
  \<comment> \<open>the condition \<open>data.entry && data.entry[0].changes &&
      data.entry[0].changes[0].value.messages\<close>\<close>
  "has_messages data =
     js_and (js_and (get data K_entry)
               (then_get (then_index0 (get data K_entry)) K_changes))
       (then_get
          (then_get (then_index0 (then_get (then_index0 (get data K_entry)) K_changes))
             K_value)
          K_messages)"

definition first_message :: "jsval \<Rightarrow> exn + jsval" where
  \<comment> \<open>\<open>data.entry[0].changes[0].value.messages[0]\<close>\<close>
  "first_message data =
     then_index0
       (then_get
          (then_get (then_index0 (then_get (then_index0 (get data K_entry)) K_changes))
             K_value)
          K_messages)"

definition message_text :: "jsval \<Rightarrow> exn + jsval" where
  \<comment> \<open>\<open>msg.text?.body || ""\<close>\<close>
  "message_text msg =
     (case get msg K_text of
        Inl e \<Rightarrow> Inl e
      | Inr t \<Rightarrow>
          (case (if nullish t then Inr JUndefined else get t K_body) of
             Inl e \<Rightarrow> Inl e
           | Inr b \<Rightarrow> Inr (js_or b (JStr []))))"

definition find_product :: "jsval \<Rightarrow> exn + jsval" where
  \<comment> \<open>\<open>PRODUCTS[parsed.product.toLowerCase()]\<close>: only a string has the method\<close>
  "find_product parsed =
     (case get parsed K_product of
        Inl e \<Rightarrow> Inl e
      | Inr (JStr s) \<Rightarrow> Inr (lookup PRODUCTS (toLowerCase s))
      | Inr _ \<Rightarrow> Inl TypeError)"

definition member :: "jsval \<Rightarrow> field \<Rightarrow> jsval" where
  \<comment> \<open>\<open>v.k\<close> where \<open>v\<close> is neither \<open>undefined\<close> nor \<open>null\<close>\<close>
  "member v k = (case get v k of Inl e \<Rightarrow> JUndefined | Inr x \<Rightarrow> x)"

definition make_order :: "jsval \<Rightarrow> jsval \<Rightarrow> exn + order" where
  \<comment> \<open>the object literal \<open>order\<close>; \<open>parsed\<close> and \<open>found\<close> (the handler's \<open>product\<close>) are
      truthy here; the multiplication in it may throw\<close>
  "make_order parsed found =
     (case js_mul (member found K_price) (member parsed K_quantity) of
        Inl e \<Rightarrow> Inl e
      | Inr t \<Rightarrow>
          Inr \<lparr>product = member parsed K_product,
               quantity = member parsed K_quantity,
               unit = member parsed K_unit,
               price = member found K_price,
               total = t\<rparr>)"

definition invoice_name :: "env \<Rightarrow> jsstring" where
  \<comment> \<open>the template \<open>invoice-${Date.now()}.pdf\<close>\<close>
  "invoice_name env = js ''invoice-'' @ show_nat (Date_now env) @ js ''.pdf''"

definition process_order :: "env \<Rightarrow> jsval \<Rightarrow> jsval \<Rightarrow> response io" where
  \<comment> \<open>the handler from the check of \<open>parsed\<close> on\<close>
  "process_order env sender parsed =
     (if \<not> truthy parsed then
        bind (sendWhatsapp env sender (Lit (js ''Sorry, I couldn't understand the order.'')))
          (\<lambda>_. ret (SendStatus 200))
      else
        bind (pure (find_product parsed)) (\<lambda>found.
          if \<not> truthy found then
            bind (sendWhatsapp env sender (Lit (js ''Product not found.'')))
              (\<lambda>_. ret (SendStatus 200))
          else
            bind (pure (make_order parsed found)) (\<lambda>ord.
              let fileName = invoice_name env
              in bind (generateInvoice env ord fileName) (\<lambda>_.
                 bind (sendWhatsapp env sender (OrderConfirmed (product ord) (total ord)))
                   (\<lambda>_. ret (SendStatus 200))))))"

definition post_webhook :: "env \<Rightarrow> jsval \<Rightarrow> response io" where
  "post_webhook env data =
     catch
       (bind (pure (has_messages data)) (\<lambda>present.
          if truthy present then
            bind (pure (first_message data)) (\<lambda>msg.
            bind (pure (get msg K_from)) (\<lambda>sender.
            bind (pure (message_text msg)) (\<lambda>txt.
            bind (parseOrderAI env txt) (process_order env sender))))
          else ret (SendStatus 200)))
       (\<lambda>err. ret (SendStatus 500))"

section \<open>The second file\<close>

definition PRODUCTS_2 :: "(jsstring \<times> jsval) list" where
  "PRODUCTS_2 =
     [(js ''sugar'', JObj [(js ''price'', JNum (Fin 40))]),
      (js ''oil'', JObj [(js ''price'', JNum (Fin 120))]),
      (js ''rice'', JObj [(js ''price'', JNum (Fin 60))])]"

definition parseOrderAI_2 :: "env \<Rightarrow> jsval \<Rightarrow> jsval io" where
  "parseOrderAI_2 env message =
     catch
       (if to_string_throws [message] then pure (Inl TypeError)
        else bind (await (Generate message) (generateContent env message))
               (\<lambda>answer. pure (JSON_parse answer)))
       (\<lambda>err. ret JNull)"

definition sendWhatsapp_2 :: "env \<Rightarrow> jsval \<Rightarrow> wa_text \<Rightarrow> unit io" where
  "sendWhatsapp_2 env to txt = await (SendText to txt) (axios_post env (SendText to txt))"

definition generateInvoice_2 :: "env \<Rightarrow> order \<Rightarrow> jsstring \<Rightarrow> jsstring io" where
  "generateInvoice_2 env ord fileName =
     (if to_string_throws [product ord, quantity ord, unit ord, price ord]
      then ([Invoice ord fileName], Throws TypeError)
      else bind (await (Invoice ord fileName) (pdf env ord fileName))
             (\<lambda>_. ret (js ''./'' @ fileName)))"

definition get_webhook_2 :: "env \<Rightarrow> query \<Rightarrow> response" where
  "get_webhook_2 env q =
     (let mode = hub_mode q; token = hub_verify_token q; challenge = hub_challenge q
      in if strict_eq mode (JStr (js ''subscribe'')) \<and> strict_eq token (VERIFY_TOKEN env)
         then Send 200 challenge
         else SendStatus 403)"

definition find_product_2 :: "jsval \<Rightarrow> exn + jsval" where
  "find_product_2 parsed =
     (case get parsed K_product of
        Inl e \<Rightarrow> Inl e
      | Inr (JStr s) \<Rightarrow> Inr (lookup PRODUCTS_2 (toLowerCase s))
      | Inr _ \<Rightarrow> Inl TypeError)"

definition make_order_2 :: "jsval \<Rightarrow> jsval \<Rightarrow> exn + order" where
  "make_order_2 parsed found =
     (case js_mul (member found K_price) (member parsed K_quantity) of
        Inl e \<Rightarrow> Inl e
      | Inr t \<Rightarrow>
          Inr \<lparr>product = member parsed K_product,
               quantity = member parsed K_quantity,
               unit = member parsed K_unit,
               price = member found K_price,
               total = t\<rparr>)"

definition send_document :: "env \<Rightarrow> jsval \<Rightarrow> jsstring \<Rightarrow> unit io" where
  \<comment> \<open>the POST of the document message that carries the invoice's link\<close>
  "send_document env to fileName =
     (let eff = SendDocument to (js ''https://yourdomain.com/'' @ fileName)
                  (js ''Your Invoice'')
      in await eff (axios_post env eff))"

definition process_order_2 :: "env \<Rightarrow> jsval \<Rightarrow> jsval \<Rightarrow> response io" where
  "process_order_2 env sender parsed =
     (if \<not> truthy parsed then
        bind (sendWhatsapp_2 env sender
                (Lit (js ''Sorry, I couldn't understand the order.'')))
          (\<lambda>_. ret (SendStatus 200))
      else
        bind (pure (find_product_2 parsed)) (\<lambda>found.
          if \<not> truthy found then
            bind (sendWhatsapp_2 env sender (Lit (js ''Product not found.'')))
              (\<lambda>_. ret (SendStatus 200))
          else
            bind (pure (make_order_2 parsed found)) (\<lambda>ord.
              let fileName = invoice_name env
              in bind (generateInvoice_2 env ord fileName) (\<lambda>filePath.
                 bind (send_document env sender fileName)
                   (\<lambda>_. ret (SendStatus 200))))))"

definition post_webhook_2 :: "env \<Rightarrow> jsval \<Rightarrow> response io" where
  "post_webhook_2 env data =
     catch
       (bind (pure (has_messages data)) (\<lambda>present.
          if truthy present then
            bind (pure (first_message data)) (\<lambda>msg.
            bind (pure (get msg K_from)) (\<lambda>sender.
            bind (pure (message_text msg)) (\<lambda>txt.
            bind (parseOrderAI_2 env txt) (process_order_2 env sender))))
          else ret (SendStatus 200)))
       (\<lambda>err. ret (SendStatus 500))"

section \<open>Notions the properties are stated with\<close>

text \<open>
  The pricing step of the first file on its own: the lookup, the test of what it found
  and the order built from it, without the calls around them.
\<close>

datatype pricing = ProductNotFound | Priced order

definition price_order :: "jsval \<Rightarrow> exn + pricing" where
  "price_order parsed =
     (case find_product parsed of
        Inl e \<Rightarrow> Inl e
      | Inr found \<Rightarrow>
          if \<not> truthy found then Inr ProductNotFound
          else (case make_order parsed found of
                  Inl e \<Rightarrow> Inl e
                | Inr ord \<Rightarrow> Inr (Priced ord)))"

definition candidate :: "jsval \<Rightarrow> jsval \<Rightarrow> jsval \<Rightarrow> jsval" where
  \<comment> \<open>the object \<open>{product, quantity, unit}\<close>\<close>
  "candidate p q u = JObj [(js ''product'', p), (js ''quantity'', q), (js ''unit'', u)]"

definition delivery :: "jsval \<Rightarrow> jsval \<Rightarrow> jsval" where
  \<comment> \<open>the body of a delivery with one message: its sender and the body of its text\<close>
  "delivery sender txt =
     JObj [(js ''entry'',
       JArr [JObj [(js ''changes'',
         JArr [JObj [(js ''value'',
           JObj [(js ''messages'',
             JArr [JObj [(js ''from'', sender),
                         (js ''text'', JObj [(js ''body'', txt)])]])])]])]])]"

definition carries :: "jsval \<Rightarrow> jsval \<Rightarrow> jsval \<Rightarrow> bool" where
  \<comment> \<open>the handler finds a message in the body, with this sender and this text\<close>
  "carries data sender txt =
     (case has_messages data of
        Inl e \<Rightarrow> False
      | Inr present \<Rightarrow>
          truthy present \<and>
          (case first_message data of
             Inl e \<Rightarrow> False
           | Inr msg \<Rightarrow> get msg K_from = Inr sender \<and> message_text msg = Inr txt))"

fun is_confirmation :: "effect \<Rightarrow> bool" where
  "is_confirmation (SendText to (OrderConfirmed p t)) = True"
| "is_confirmation (SendDocument to link caption) = True"
| "is_confirmation _ = False"

definition agree :: "response io \<Rightarrow> response io \<Rightarrow> bool" where
  \<comment> \<open>two runs do the same but for the confirmation: the same calls in the same order
      when the confirmations are left out, a confirmation in the one when there is one
      in the other, and the same run altogether when there is none\<close>
  "agree r2 r1 =
     (filter (\<lambda>e. \<not> is_confirmation e) (fst r2) = filter (\<lambda>e. \<not> is_confirmation e) (fst r1)
      \<and> (list_ex is_confirmation (fst r1) \<longrightarrow> list_ex is_confirmation (fst r2))
      \<and> (\<not> list_ex is_confirmation (fst r1) \<longrightarrow> r2 = r1))"

definition example_env :: "jsstring settled \<Rightarrow> env" where
  \<comment> \<open>an environment for examples: the secret is \<open>secret\<close>, the model gives one answer
      to every prompt, every other call resolves\<close>
  "example_env answer =
     \<lparr>VERIFY_TOKEN = JStr (js ''secret''),
      generateContent = (\<lambda>message. answer),
      axios_post = (\<lambda>eff. Resolved ()),
      pdf = (\<lambda>ord fileName. Resolved ()),
      Date_now = 1700000000000\<rparr>"

section \<open>Properties\<close>

subsection \<open>Computations\<close>

lemma bind_pure_Inr: "bind (pure (Inr v)) f = f v"
  by (simp add: bind_def pure_def split: prod.splits)

lemma bind_pure_Inl: "bind (pure (Inl e)) f = ([], Throws e)"
  by (simp add: bind_def pure_def)

lemma bind_ret: "bind (ret v) f = f v"
  by (simp add: bind_def ret_def split: prod.splits)

lemma catch_Throws: "catch (es, Throws e) h = (case h e of (es', r) \<Rightarrow> (es @ es', r))"
  by (simp add: catch_def)

lemma catch_Returns: "catch (es, Returns v) h = (es, Returns v)"
  by (simp add: catch_def)

subsection \<open>Rounding\<close>

text \<open>A whole number below \<open>2 ^ 53\<close> is a binary64 value: rounding leaves it as it is.\<close>

lemma round_half_even_of_int: "round_half_even (of_int k) = k"
  by (simp add: round_half_even_def)

lemma floor_log2_of_nat:
  assumes "0 < n"
  shows "floor_log2 (of_nat n) = bitlen (int n) - 1"
proof -
  have q: "quotient_of (of_nat n) = (int n, 1)"
    using quotient_of_int [of "int n"] by simp
  from assms have b: "2 ^ nat (bitlen (int n) - 1) \<le> int n"
    using bitlen_bounds [of "int n"] by simp
  from assms have "0 < bitlen (int n)"
    using bitlen_nonneg [of "int n"] bitlen_eq_zero_iff [of "int n"] by simp
  then have p: "pow2 (bitlen (int n) - 1) = 2 ^ nat (bitlen (int n) - 1)"
    by (simp add: pow2_def)
  have "(2::rat) ^ nat (bitlen (int n) - 1) \<le> of_nat n"
  proof -
    have "(of_int (2 ^ nat (bitlen (int n) - 1)) :: rat) \<le> of_int (int n)"
      using b by (simp only: of_int_le_iff)
    then show ?thesis by simp
  qed
  moreover have "bitlen 1 = 1" by code_simp
  ultimately show ?thesis using p q by (simp add: floor_log2_def)
qed

lemma round_double_of_nat:
  assumes "0 < n" and "n < 2 ^ 53"
  shows "round_double False (of_nat n) = Fin (of_nat n)"
proof -
  define e where "e = bitlen (int n) - 1"
  from assms(1) have e0: "0 \<le> e"
    using bitlen_nonneg [of "int n"] bitlen_eq_zero_iff [of "int n"] by (simp add: e_def)
  have "2 ^ nat e \<le> int n"
    using assms(1) bitlen_bounds [of "int n"] by (simp add: e_def)
  also have "int n < int (2 ^ 53)" using assms(2) by (simp only: of_nat_less_iff)
  also have "int (2 ^ 53) = 2 ^ 53" by (simp only: of_nat_power of_nat_numeral)
  finally have "(2::int) ^ nat e < 2 ^ 53" .
  then have "nat e < 53" by (rule power_less_imp_less_exp [rotated]) simp
  with e0 have e52: "e \<le> 52" by simp
  define m where "m = nat (52 - e)"
  have q: "pow2 (e - 52) = 1 / 2 ^ m"
    using e52 by (cases "e = 52") (simp_all add: pow2_def m_def)
  have quot: "of_nat n / pow2 (e - 52) = (of_int (int n * 2 ^ m) :: rat)"
    by (simp add: q)
  have undo: "(of_int (int n * 2 ^ m) :: rat) * pow2 (e - 52) = of_nat n"
    by (simp add: q)
  have small: "\<not> pow2 1024 \<le> (of_nat n :: rat)"
  proof -
    have "(of_nat n :: rat) < of_nat (2 ^ 53)" using assms(2) by (simp only: of_nat_less_iff)
    also have "\<dots> = 2 ^ 53" by (simp only: of_nat_power of_nat_numeral)
    also have "\<dots> \<le> (2::rat) ^ 1024" by (rule power_increasing) simp_all
    finally have "(of_nat n :: rat) < 2 ^ 1024" .
    moreover have "pow2 1024 = 2 ^ 1024" unfolding pow2_def by (simp only: nat_numeral if_True zero_le_numeral)
    ultimately show ?thesis by (simp only: not_le)
  qed
  have nz: "int n * 2 ^ m \<noteq> 0" using assms(1) by simp
  have fl: "max (floor_log2 (of_nat n)) (- 1022) = e"
    using floor_log2_of_nat [OF assms(1)] e0 by (simp add: e_def)
  have pos: "\<not> (of_nat n :: rat) \<le> 0" using assms(1) by simp
  show ?thesis
    unfolding round_double_def Let_def fl quot round_half_even_of_int undo
    using small nz pos by simp
qed

subsection \<open>Letter case\<close>

text \<open>
  Lowering a string twice is lowering it once; raising an ASCII string and lowering it
  is lowering it. Both are checked on every code unit below U+0180 one by one.
\<close>

lemma lower_lower_small:
  "\<forall>n \<in> set [0..<384]. concat (map lower_unit (lower_unit (of_nat n))) = lower_unit (of_nat n)"
  by code_simp

lemma lower_upper_small:
  "\<forall>n \<in> set [0..<128]. concat (map lower_unit (upper_unit (of_nat n))) = lower_unit (of_nat n)"
  by code_simp

lemma lower_unit_large:
  fixes c :: "16 word"
  assumes "0x180 \<le> c"
  shows "lower_unit c =
           (if c = 0x1E9E then [0xDF]
            else if c = 0x212A then [0x6B]
            else if c = 0x212B then [0xE5]
            else [c])"
proof -
  from assms have n: "384 \<le> unat c" by (simp add: word_le_nat_alt)
  have "\<not> c \<le> 0x5A" "\<not> c \<le> 0xDE" "c \<noteq> 0x130" "c \<noteq> 0x178" "\<not> c \<le> 0x12F" "\<not> c \<le> 0x137"
    "\<not> c \<le> 0x177" "\<not> c \<le> 0x148" "\<not> c \<le> 0x17E"
    using n by (auto simp: word_le_nat_alt)
  then show ?thesis by (simp add: lower_unit_def)
qed

lemma lower_lower_unit:
  fixes c :: "16 word"
  shows "concat (map lower_unit (lower_unit c)) = lower_unit c"
proof (cases "0x180 \<le> c")
  case True
  have "lower_unit 0xDF = [0xDF]" "lower_unit 0x6B = [0x6B]" "lower_unit 0xE5 = [0xE5]"
    by (simp_all add: lower_unit_def)
  with True show ?thesis by (simp add: lower_unit_large)
next
  case False
  then have "unat c < 384" by (simp add: word_le_nat_alt)
  then have "unat c \<in> set [0..<384]" by simp
  with lower_lower_small
  have "concat (map lower_unit (lower_unit (of_nat (unat c)))) = lower_unit (of_nat (unat c))"
    by blast
  then show ?thesis by simp
qed

lemma lower_upper_ascii:
  fixes c :: "16 word"
  assumes "c < 0x80"
  shows "concat (map lower_unit (upper_unit c)) = lower_unit c"
proof -
  from assms have "unat c \<in> set [0..<128]" by (simp add: word_less_nat_alt)
  with lower_upper_small
  have "concat (map lower_unit (upper_unit (of_nat (unat c)))) = lower_unit (of_nat (unat c))"
    by blast
  then show ?thesis by simp
qed

lemma toLowerCase_idem: "toLowerCase (toLowerCase s) = toLowerCase s"
  by (induction s) (simp_all add: toLowerCase_def lower_lower_unit)

lemma toLowerCase_toUpperCase:
  "is_ascii s \<Longrightarrow> toLowerCase (toUpperCase s) = toLowerCase s"
  by (induction s) (simp_all add: toLowerCase_def toUpperCase_def is_ascii_def lower_upper_ascii)

lemma find_product_candidate:
  "find_product (candidate (JStr s) q u) = Inr (lookup PRODUCTS (toLowerCase s))"
  by (simp add: find_product_def candidate_def own_def js_def)

subsection \<open>The parts of the handler\<close>

lemma parseOrderAI_eq:
  "parseOrderAI env m =
     (if unprintable m then ([], Returns JNull)
      else ([Generate m],
            case generateContent env m of
              Resolved t \<Rightarrow> (case JSON_parse t of Inl e \<Rightarrow> Returns JNull | Inr v \<Rightarrow> Returns v)
            | Rejected e \<Rightarrow> Returns JNull
            | Pending \<Rightarrow> Hangs))"
  by (simp add: parseOrderAI_def to_string_throws_def catch_def bind_def await_def pure_def
      ret_def split: settled.splits sum.splits)

lemma parseOrderAI_quiet: "\<not> list_ex is_confirmation (fst (parseOrderAI env m))"
  by (simp add: parseOrderAI_eq)

lemma post_webhook_carries:
  assumes "carries data sender txt"
  shows "post_webhook env data =
           catch (bind (parseOrderAI env txt) (process_order env sender))
             (\<lambda>err. ret (SendStatus 500))"
proof -
  from assms obtain present msg where
    "has_messages data = Inr present" "truthy present" "first_message data = Inr msg"
    "get msg K_from = Inr sender" "message_text msg = Inr txt"
    by (auto simp: carries_def split: sum.splits)
  then show ?thesis
    by (simp add: post_webhook_def bind_pure_Inr)
qed

lemma carries_delivery:
  "carries (delivery sender txt) sender (js_or txt (JStr []))"
  by (simp add: carries_def delivery_def has_messages_def first_message_def message_text_def
      js_and_def then_get_def then_index0_def own_def js_def)

lemma process_order_price:
  "truthy parsed \<Longrightarrow> process_order env sender parsed =
     (case price_order parsed of
        Inl e \<Rightarrow> ([], Throws e)
      | Inr ProductNotFound \<Rightarrow>
          bind (sendWhatsapp env sender (Lit (js ''Product not found.'')))
            (\<lambda>_. ret (SendStatus 200))
      | Inr (Priced ord) \<Rightarrow>
          bind (generateInvoice env ord (invoice_name env)) (\<lambda>_.
            bind (sendWhatsapp env sender (OrderConfirmed (product ord) (total ord)))
              (\<lambda>_. ret (SendStatus 200))))"
  by (simp add: process_order_def price_order_def bind_pure_Inr bind_pure_Inl Let_def
      split: sum.splits)

lemma fst_notify:
  "fst (bind (sendWhatsapp env to txt) f) = SendText to txt # (case axios_post env (SendText to txt) of Resolved v \<Rightarrow> fst (f v) | _ \<Rightarrow> [])"
  by (simp add: sendWhatsapp_def bind_def await_def split: settled.splits prod.splits)

lemma fst_invoice:
  "fst (bind (generateInvoice env ord name) f) =
     Invoice ord name #
       (if to_string_throws [product ord, quantity ord, unit ord, price ord] then []
        else (case pdf env ord name of Resolved v \<Rightarrow> fst (f (js ''./'' @ name)) | _ \<Rightarrow> []))"
  by (simp add: generateInvoice_def bind_def await_def ret_def split: settled.splits prod.splits)

lemma string_product_truthy:
  "get parsed K_product = Inr (JStr s) \<Longrightarrow> truthy parsed"
  by (cases parsed) auto

lemma PRODUCTS_entry:
  assumes "map_of PRODUCTS k = Some entry"
  shows "\<exists>p. entry = JObj [(js ''price'', JNum (Fin p))] \<and> p \<in> {40, 120, 60}"
  using assms by (auto simp: PRODUCTS_def split: if_splits)

lemma member_price: "member (JObj [(js ''price'', v)]) K_price = v"
  by (simp add: member_def own_def)

lemma member_get: "get v k = Inr x \<Longrightarrow> member v k = x"
  by (simp add: member_def)

lemma price_order_string:
  assumes "get parsed K_product = Inr (JStr s)"
  shows "price_order parsed =
           (if truthy (lookup PRODUCTS (toLowerCase s))
            then (case make_order parsed (lookup PRODUCTS (toLowerCase s)) of
                    Inl e \<Rightarrow> Inl e
                  | Inr ord \<Rightarrow> Inr (Priced ord))
            else Inr ProductNotFound)"
  using assms by (simp add: price_order_def find_product_def)

lemma process_order_resolved:
  assumes "truthy parsed" and "price_order parsed = Inr (Priced ord)"
    and "pdf env ord (invoice_name env) = Resolved ()"
    and "axios_post env (SendText sender (OrderConfirmed (product ord) (total ord)))
           = Resolved ()"
    and "\<not> to_string_throws [product ord, quantity ord, unit ord, price ord]"
  shows "process_order env sender parsed =
           ([Invoice ord (invoice_name env),
             SendText sender (OrderConfirmed (product ord) (total ord))],
            Returns (SendStatus 200))"
  using assms
  by (simp add: process_order_price generateInvoice_def sendWhatsapp_def bind_def await_def
      ret_def)

lemma example_invoice_name:
  "invoice_name (example_env answer) = js ''invoice-1700000000000.pdf''"
  by (simp add: invoice_name_def example_env_def js_def)

lemma delivery_priced:
  assumes "carries data sender txt"
    and "generateContent env txt = Resolved answer"
    and "JSON_parse answer = Inr parsed"
    and "truthy parsed"
    and "price_order parsed = Inr (Priced ord)"
    and "pdf env ord (invoice_name env) = Resolved ()"
    and "axios_post env (SendText sender (OrderConfirmed (product ord) (total ord)))
           = Resolved ()"
    and "\<not> to_string_throws [product ord, quantity ord, unit ord, price ord]"
    and "\<not> unprintable txt"
  shows "post_webhook env data =
           ([Generate txt, Invoice ord (invoice_name env),
             SendText sender (OrderConfirmed (product ord) (total ord))],
            Returns (SendStatus 200))"
proof -
  have g: "parseOrderAI env txt = ([Generate txt], Returns parsed)"
    using assms(2,3,9) by (simp add: parseOrderAI_eq)
  have r: "process_order env sender parsed =
          ([Invoice ord (invoice_name env),
            SendText sender (OrderConfirmed (product ord) (total ord))],
           Returns (SendStatus 200))"
    using assms(4,5,6,7,8) by (rule process_order_resolved)
  show ?thesis
    by (simp add: post_webhook_carries [OF assms(1)] g r bind_def catch_def)
qed

lemma delivery_not_found:
  assumes "carries data sender txt"
    and "generateContent env txt = Resolved answer"
    and "JSON_parse answer = Inr parsed"
    and "truthy parsed"
    and "price_order parsed = Inr ProductNotFound"
    and "axios_post env (SendText sender (Lit (js ''Product not found.''))) = Resolved ()"
    and "\<not> unprintable txt"
  shows "post_webhook env data =
           ([Generate txt, SendText sender (Lit (js ''Product not found.''))],
            Returns (SendStatus 200))"
proof -
  have g: "parseOrderAI env txt = ([Generate txt], Returns parsed)"
    using assms(2,3,7) by (simp add: parseOrderAI_eq)
  have r: "process_order env sender parsed =
          ([SendText sender (Lit (js ''Product not found.''))], Returns (SendStatus 200))"
    using assms(4,5,6)
    by (simp add: process_order_price sendWhatsapp_def bind_def await_def ret_def)
  show ?thesis
    by (simp add: post_webhook_carries [OF assms(1)] g r bind_def catch_def)
qed

lemma carries_text:
  "s \<noteq> [] \<Longrightarrow> carries (delivery sender (JStr s)) sender (JStr s)"
  using carries_delivery [of sender "JStr s"] by (simp add: js_or_def)

lemma sugar_delivery:
  "post_webhook
     (example_env (Resolved (js ''{\"product\":\"sugar\",\"quantity\":2,\"unit\":\"kg\"}'')))
     (delivery (JStr (js ''15551234567'')) (JStr (js ''2 kg sugar'')))
   = ([Generate (JStr (js ''2 kg sugar'')),
       Invoice \<lparr>product = JStr (js ''sugar''), quantity = JNum (Fin 2),
                 unit = JStr (js ''kg''), price = JNum (Fin 40), total = Fin 80\<rparr>
         (js ''invoice-1700000000000.pdf''),
       SendText (JStr (js ''15551234567'')) (OrderConfirmed (JStr (js ''sugar'')) (Fin 80))],
      Returns (SendStatus 200))"
proof -
  let ?answer = "js ''{\"product\":\"sugar\",\"quantity\":2,\"unit\":\"kg\"}''"
  let ?env = "example_env (Resolved ?answer)"
  let ?cand = "candidate (JStr (js ''sugar'')) (JNum (Fin 2)) (JStr (js ''kg''))"
  let ?ord = "\<lparr>product = JStr (js ''sugar''), quantity = JNum (Fin 2),
              unit = JStr (js ''kg''), price = JNum (Fin 40), total = Fin 80\<rparr>"
  have c: "carries (delivery (JStr (js ''15551234567'')) (JStr (js ''2 kg sugar'')))
             (JStr (js ''15551234567'')) (JStr (js ''2 kg sugar''))"
    by (rule carries_text) (simp add: js_def)
  have g: "generateContent ?env (JStr (js ''2 kg sugar'')) = Resolved ?answer"
    by (simp add: example_env_def)
  have j: "JSON_parse ?answer = Inr ?cand" by code_simp
  have t: "truthy ?cand" by (simp add: candidate_def)
  have p: "price_order ?cand = Inr (Priced ?ord)" by code_simp
  have "post_webhook ?env (delivery (JStr (js ''15551234567'')) (JStr (js ''2 kg sugar'')))
        = ([Generate (JStr (js ''2 kg sugar'')), Invoice ?ord (invoice_name ?env),
            SendText (JStr (js ''15551234567'')) (OrderConfirmed (product ?ord) (total ?ord))],
           Returns (SendStatus 200))"
    by (rule delivery_priced [OF c g j t p])
      (simp_all add: example_env_def to_string_throws_def)
  then show ?thesis by (simp add: example_invoice_name)
qed

lemma flour_delivery:
  "post_webhook
     (example_env (Resolved (js ''{\"product\":\"flour\",\"quantity\":1,\"unit\":\"kg\"}'')))
     (delivery (JStr (js ''15551234567'')) (JStr (js ''1 kg flour'')))
   = ([Generate (JStr (js ''1 kg flour'')),
       SendText (JStr (js ''15551234567'')) (Lit (js ''Product not found.''))],
      Returns (SendStatus 200))"
proof -
  let ?answer = "js ''{\"product\":\"flour\",\"quantity\":1,\"unit\":\"kg\"}''"
  let ?env = "example_env (Resolved ?answer)"
  let ?cand = "candidate (JStr (js ''flour'')) (JNum (Fin 1)) (JStr (js ''kg''))"
  have c: "carries (delivery (JStr (js ''15551234567'')) (JStr (js ''1 kg flour'')))
             (JStr (js ''15551234567'')) (JStr (js ''1 kg flour''))"
    by (rule carries_text) (simp add: js_def)
  have g: "generateContent ?env (JStr (js ''1 kg flour'')) = Resolved ?answer"
    by (simp add: example_env_def)
  have j: "JSON_parse ?answer = Inr ?cand" by code_simp
  have t: "truthy ?cand" by (simp add: candidate_def)
  have p: "price_order ?cand = Inr ProductNotFound" by code_simp
  show ?thesis
    by (rule delivery_not_found [OF c g j t p]) (simp_all add: example_env_def)
qed

subsection \<open>The two files side by side\<close>

lemma agree_refl: "\<not> list_ex is_confirmation (fst r) \<Longrightarrow> agree r r"
  by (simp add: agree_def)

lemma PRODUCTS_2_eq: "PRODUCTS_2 = PRODUCTS"
  by (simp add: PRODUCTS_2_def PRODUCTS_def)

lemma find_product_2_eq: "find_product_2 parsed = find_product parsed"
  unfolding find_product_2_def find_product_def PRODUCTS_2_eq by (rule refl)

lemma core_2:
  "parseOrderAI_2 env message = parseOrderAI env message"
  "make_order_2 parsed found = make_order parsed found"
  "sendWhatsapp_2 env to txt = sendWhatsapp env to txt"
  "generateInvoice_2 env ord name = generateInvoice env ord name"
  by (simp_all add: parseOrderAI_2_def parseOrderAI_def make_order_2_def make_order_def
      sendWhatsapp_2_def sendWhatsapp_def generateInvoice_2_def generateInvoice_def)

lemma process_order_2_price:
  "truthy parsed \<Longrightarrow> process_order_2 env sender parsed =
     (case price_order parsed of
        Inl e \<Rightarrow> ([], Throws e)
      | Inr ProductNotFound \<Rightarrow>
          bind (sendWhatsapp env sender (Lit (js ''Product not found.'')))
            (\<lambda>_. ret (SendStatus 200))
      | Inr (Priced ord) \<Rightarrow>
          bind (generateInvoice env ord (invoice_name env)) (\<lambda>_.
            bind (send_document env sender (invoice_name env))
              (\<lambda>_. ret (SendStatus 200))))"
  by (simp add: process_order_2_def core_2 find_product_2_eq price_order_def bind_pure_Inr bind_pure_Inl Let_def
      split: sum.splits)

lemma agree_process_order:
  "agree (process_order_2 env sender parsed) (process_order env sender parsed)"
proof (cases "truthy parsed")
  case False
  then have "process_order_2 env sender parsed = process_order env sender parsed"
    by (simp add: process_order_2_def process_order_def core_2)
  moreover have "\<not> list_ex is_confirmation (fst (process_order env sender parsed))"
    using False by (simp add: process_order_def fst_notify ret_def split: settled.splits)
  ultimately show ?thesis by (simp add: agree_refl)
next
  case True
  show ?thesis
  proof (cases "price_order parsed")
    case (Inl e)
    with True show ?thesis
      by (simp add: process_order_2_price process_order_price agree_def)
  next
    case (Inr p)
    show ?thesis
    proof (cases p)
      case ProductNotFound
      with True Inr show ?thesis
        by (simp add: process_order_2_price process_order_price agree_def fst_notify ret_def
            split: settled.splits)
    next
      case (Priced ord)
      with True Inr show ?thesis
        by (cases "pdf env ord (invoice_name env)")
          (simp_all add: process_order_2_price process_order_price agree_def
            generateInvoice_def sendWhatsapp_def send_document_def bind_def await_def ret_def
            Let_def split: settled.splits)
    qed
  qed
qed

lemma post_webhook_shape:
  "post_webhook env data =
     (case has_messages data of
        Inl e \<Rightarrow> ([], Returns (SendStatus 500))
      | Inr present \<Rightarrow>
          if \<not> truthy present then ([], Returns (SendStatus 200))
          else (case first_message data of
                  Inl e \<Rightarrow> ([], Returns (SendStatus 500))
                | Inr msg \<Rightarrow>
                    (case get msg K_from of
                       Inl e \<Rightarrow> ([], Returns (SendStatus 500))
                     | Inr sender \<Rightarrow>
                         (case message_text msg of
                            Inl e \<Rightarrow> ([], Returns (SendStatus 500))
                          | Inr txt \<Rightarrow>
                              catch (bind (parseOrderAI env txt) (process_order env sender))
                                (\<lambda>err. ret (SendStatus 500))))))"
  by (simp add: post_webhook_def bind_pure_Inr bind_pure_Inl catch_Throws catch_Returns
      ret_def split: sum.splits)

lemma post_webhook_2_shape:
  "post_webhook_2 env data =
     (case has_messages data of
        Inl e \<Rightarrow> ([], Returns (SendStatus 500))
      | Inr present \<Rightarrow>
          if \<not> truthy present then ([], Returns (SendStatus 200))
          else (case first_message data of
                  Inl e \<Rightarrow> ([], Returns (SendStatus 500))
                | Inr msg \<Rightarrow>
                    (case get msg K_from of
                       Inl e \<Rightarrow> ([], Returns (SendStatus 500))
                     | Inr sender \<Rightarrow>
                         (case message_text msg of
                            Inl e \<Rightarrow> ([], Returns (SendStatus 500))
                          | Inr txt \<Rightarrow>
                              catch (bind (parseOrderAI env txt) (process_order_2 env sender))
                                (\<lambda>err. ret (SendStatus 500))))))"
  by (simp add: post_webhook_2_def core_2 bind_pure_Inr bind_pure_Inl catch_Throws
      catch_Returns ret_def split: sum.splits)

lemma agree_after_parse:
  assumes "\<And>parsed. agree (f2 parsed) (f1 parsed)"
  shows "agree (catch (bind (parseOrderAI env txt) f2) (\<lambda>err. ret (SendStatus 500)))
           (catch (bind (parseOrderAI env txt) f1) (\<lambda>err. ret (SendStatus 500)))"
proof -
  obtain es r where p: "parseOrderAI env txt = (es, r)" by (cases "parseOrderAI env txt")
  have q: "\<not> list_ex is_confirmation es"
    using parseOrderAI_quiet [of env "txt"] by (simp add: p)
  then have k: "filter (\<lambda>e. \<not> is_confirmation e) es = es"
    by (induction es) auto
  show ?thesis
  proof (cases r)
    case (Returns parsed)
    obtain es1 r1 where f1: "f1 parsed = (es1, r1)" by (cases "f1 parsed")
    obtain es2 r2 where f2: "f2 parsed = (es2, r2)" by (cases "f2 parsed")
    from assms [of parsed] f1 f2 q k Returns show ?thesis
      by (cases r1; cases r2) (auto simp: p bind_def catch_def ret_def agree_def)
  next
    case (Throws e)
    with q k show ?thesis by (simp add: p bind_def catch_def ret_def agree_def)
  next
    case Hangs
    with q k show ?thesis by (simp add: p bind_def catch_def agree_def)
  qed
qed

lemma agree_post_webhook: "agree (post_webhook_2 env data) (post_webhook env data)"
  unfolding post_webhook_shape post_webhook_2_shape
  by (auto simp: agree_refl agree_after_parse agree_process_order split: sum.splits)

subsection \<open>The quantity of an order\<close>

text \<open>
  C1, as amended. The pricing step never checks the quantity: there is no state for an
  invalid quantity. For every candidate order whose product is a string (the names a
  plain object inherits set apart), the step finds no product exactly when the name in
  lower case is no key of \<open>PRODUCTS\<close>, whatever the quantity is. When the name is a key,
  the quantity is converted to a Number for the multiplication: where that conversion
  throws, the step throws a TypeError and builds no order; everywhere else it builds an
  order with the entry's price and with the product of the price and the Number of the
  quantity as the total. The handler then starts the invoice of that order, or tells
  the sender that the product was not found, or does nothing when the step throws. A
  missing quantity converts to not-a-number, and so does its product with any price.
\<close>

theorem quantity_is_not_checked:
  assumes "get parsed K_product = Inr (JStr s)"
    and "object_prototype (toLowerCase s) = JUndefined"
  shows "price_order parsed =
           (case map_of PRODUCTS (toLowerCase s) of
              None \<Rightarrow> Inr ProductNotFound
            | Some entry \<Rightarrow>
                if unprintable (member parsed K_quantity) then Inl TypeError
                else Inr (Priced \<lparr>product = JStr s, quantity = member parsed K_quantity,
                                   unit = member parsed K_unit, price = member entry K_price,
                                   total = js_times (number_of (member entry K_price))
                                             (number_of (member parsed K_quantity))\<rparr>))
         \<and> take 1 (fst (process_order env sender parsed)) =
           (case price_order parsed of
              Inl e \<Rightarrow> []
            | Inr ProductNotFound \<Rightarrow> [SendText sender (Lit (js ''Product not found.''))]
            | Inr (Priced ord) \<Rightarrow> [Invoice ord (invoice_name env)])
         \<and> number_of JUndefined = NaN
         \<and> js_times x NaN = NaN"
proof -
  have t: "truthy parsed" using assms(1) by (rule string_product_truthy)
  have a: "price_order parsed =
           (case map_of PRODUCTS (toLowerCase s) of
              None \<Rightarrow> Inr ProductNotFound
            | Some entry \<Rightarrow>
                if unprintable (member parsed K_quantity) then Inl TypeError
                else Inr (Priced \<lparr>product = JStr s, quantity = member parsed K_quantity,
                                   unit = member parsed K_unit, price = member entry K_price,
                                   total = js_times (number_of (member entry K_price))
                                             (number_of (member parsed K_quantity))\<rparr>))"
  proof (cases "map_of PRODUCTS (toLowerCase s)")
    case None
    with assms(2) have "lookup PRODUCTS (toLowerCase s) = JUndefined"
      by (simp add: lookup_def)
    with None show ?thesis by (simp add: price_order_string [OF assms(1)])
  next
    case (Some entry)
    then obtain p where "entry = JObj [(js ''price'', JNum (Fin p))]"
      using PRODUCTS_entry by blast
    with Some show ?thesis
      using assms(1)
      by (simp add: price_order_string [OF assms(1)] lookup_def make_order_def js_mul_def
          to_number_def member_get member_price)
  qed
  have b: "take 1 (fst (process_order env sender parsed)) =
           (case price_order parsed of
              Inl e \<Rightarrow> []
            | Inr ProductNotFound \<Rightarrow> [SendText sender (Lit (js ''Product not found.''))]
            | Inr (Priced ord) \<Rightarrow> [Invoice ord (invoice_name env)])"
    by (simp add: process_order_price [OF t] fst_notify fst_invoice
        split: sum.splits pricing.splits)
  have c: "js_times x NaN = NaN"
    by (simp add: js_times_def)
  from a b c show ?thesis by simp
qed

text \<open>
  At an order for rice with no quantity an order is built, with a total that is not a
  number; at an order for flour with the quantity zero the product is not found; at an
  order for sugar whose quantity is an object with a member \<open>toString\<close> the step throws.
\<close>

theorem quantity_is_not_checked_witness:
  "price_order (JObj [(js ''product'', JStr (js ''Rice'')), (js ''unit'', JStr (js ''kg''))])
     = Inr (Priced \<lparr>product = JStr (js ''Rice''), quantity = JUndefined,
                     unit = JStr (js ''kg''), price = JNum (Fin 60), total = NaN\<rparr>)
   \<and> price_order (candidate (JStr (js ''flour'')) (JNum (Fin 0)) (JStr (js ''kg'')))
     = Inr ProductNotFound
   \<and> price_order (candidate (JStr (js ''sugar'')) (JObj [(js ''toString'', JNum (Fin 1))])
        (JStr (js ''kg'')))
     = Inl TypeError"
proof -
  let ?rice = "JObj [(js ''product'', JStr (js ''Rice'')), (js ''unit'', JStr (js ''kg''))]"
  let ?flour = "candidate (JStr (js ''flour'')) (JNum (Fin 0)) (JStr (js ''kg''))"
  let ?sugar = "candidate (JStr (js ''sugar'')) (JObj [(js ''toString'', JNum (Fin 1))])
                  (JStr (js ''kg''))"
  have r1: "get ?rice K_product = Inr (JStr (js ''Rice''))"
    by (simp add: own_def js_def)
  have r2: "object_prototype (toLowerCase (js ''Rice'')) = JUndefined" by code_simp
  have r3: "map_of PRODUCTS (toLowerCase (js ''Rice''))
              = Some (JObj [(js ''price'', JNum (Fin 60))])" by code_simp
  have r4: "member ?rice K_quantity = JUndefined" "member ?rice K_unit = JStr (js ''kg'')"
    by (simp_all add: member_def own_def js_def)
  have f1: "get ?flour K_product = Inr (JStr (js ''flour''))"
    by (simp add: candidate_def own_def js_def)
  have f2: "object_prototype (toLowerCase (js ''flour'')) = JUndefined" by code_simp
  have f3: "map_of PRODUCTS (toLowerCase (js ''flour'')) = None" by code_simp
  have s1: "get ?sugar K_product = Inr (JStr (js ''sugar''))"
    by (simp add: candidate_def own_def js_def)
  have s2: "object_prototype (toLowerCase (js ''sugar'')) = JUndefined" by code_simp
  have s3: "map_of PRODUCTS (toLowerCase (js ''sugar''))
              = Some (JObj [(js ''price'', JNum (Fin 40))])" by code_simp
  have s4: "unprintable (member ?sugar K_quantity)"
    by (simp add: candidate_def member_def own_def js_def)
  from quantity_is_not_checked [OF r1 r2] r3 r4
  have "price_order ?rice
     = Inr (Priced \<lparr>product = JStr (js ''Rice''), quantity = JUndefined,
                     unit = JStr (js ''kg''), price = JNum (Fin 60), total = NaN\<rparr>)"
    by (simp add: member_price js_times_def)
  moreover from quantity_is_not_checked [OF f1 f2] f3
  have "price_order ?flour = Inr ProductNotFound" by simp
  moreover from quantity_is_not_checked [OF s1 s2] s3 s4
  have "price_order ?sugar = Inl TypeError" by simp
  ultimately show ?thesis by simp
qed

text \<open>
  C1 as it was stated fails: a quantity of \<open>-3\<close> of sugar is priced, at a total of
  \<open>-120\<close>, and the handler goes on to the invoice of this order.
\<close>

theorem invalid_quantity_counterexample:
  "price_order (candidate (JStr (js ''sugar'')) (JNum (Fin (- 3))) (JStr (js ''kg'')))
     = Inr (Priced \<lparr>product = JStr (js ''sugar''), quantity = JNum (Fin (- 3)),
                     unit = JStr (js ''kg''), price = JNum (Fin 40), total = Fin (- 120)\<rparr>)
   \<and> take 1 (fst (process_order (example_env Pending) (JStr (js ''15551234567''))
                 (candidate (JStr (js ''sugar'')) (JNum (Fin (- 3))) (JStr (js ''kg'')))))
     = [Invoice \<lparr>product = JStr (js ''sugar''), quantity = JNum (Fin (- 3)),
                  unit = JStr (js ''kg''), price = JNum (Fin 40), total = Fin (- 120)\<rparr>
          (js ''invoice-1700000000000.pdf'')]"
proof -
  let ?cand = "candidate (JStr (js ''sugar'')) (JNum (Fin (- 3))) (JStr (js ''kg''))"
  have p: "price_order ?cand
     = Inr (Priced \<lparr>product = JStr (js ''sugar''), quantity = JNum (Fin (- 3)),
                     unit = JStr (js ''kg''), price = JNum (Fin 40), total = Fin (- 120)\<rparr>)"
    by code_simp
  have t: "truthy ?cand" by (simp add: candidate_def)
  from p show ?thesis
    by (simp add: process_order_price [OF t] fst_invoice example_invoice_name)
qed

subsection \<open>The total of an order\<close>

text \<open>
  C2. For every candidate order whose product in lower case is a key of \<open>PRODUCTS\<close> and
  whose quantity is a finite Number above zero, the pricing step builds an order with
  the entry's price, and its total is the operator \<open>*\<close> on price and quantity: the
  exact product rounded once to a binary64 value, and the exact product itself when that
  is a whole number below \<open>2 ^ 53\<close>. The handler writes the invoice of this order.
\<close>

theorem total_is_price_times_quantity:
  assumes "get parsed K_product = Inr (JStr s)"
    and "map_of PRODUCTS (toLowerCase s) = Some entry"
    and "get parsed K_quantity = Inr (JNum (Fin q))"
    and "0 < q"
  shows "\<exists>p. member entry K_price = JNum (Fin p) \<and> 0 < p
           \<and> price_order parsed =
               Inr (Priced \<lparr>product = JStr s, quantity = JNum (Fin q),
                             unit = member parsed K_unit, price = JNum (Fin p),
                             total = js_times (Fin p) (Fin q)\<rparr>)
           \<and> js_times (Fin p) (Fin q) = round_double False (p * q)
           \<and> (\<forall>n. 0 < n \<and> n < 2 ^ 53 \<and> p * q = of_nat n
                  \<longrightarrow> js_times (Fin p) (Fin q) = Fin (p * q))
           \<and> take 1 (fst (process_order env sender parsed)) =
               [Invoice \<lparr>product = JStr s, quantity = JNum (Fin q),
                         unit = member parsed K_unit, price = JNum (Fin p),
                         total = js_times (Fin p) (Fin q)\<rparr> (invoice_name env)]"
proof -
  from assms(2) obtain p where e: "entry = JObj [(js ''price'', JNum (Fin p))]"
    and p: "p \<in> {40, 120, 60}"
    using PRODUCTS_entry by blast
  from p have pos: "0 < p" by auto
  have t: "truthy parsed" using assms(1) by (rule string_product_truthy)
  have look: "lookup PRODUCTS (toLowerCase s) = entry"
    using assms(2) by (simp add: lookup_def)
  have po: "price_order parsed =
               Inr (Priced \<lparr>product = JStr s, quantity = JNum (Fin q),
                             unit = member parsed K_unit, price = JNum (Fin p),
                             total = js_times (Fin p) (Fin q)\<rparr>)"
    using assms(1,3)
    by (simp add: price_order_string [OF assms(1)] look e make_order_def member_get
        member_price js_mul_def to_number_def)
  have times: "js_times (Fin p) (Fin q) = round_double False (p * q)"
    using pos assms(4) by (simp add: js_times_def Let_def not_less [symmetric])
  have exact: "\<forall>n. 0 < n \<and> n < 2 ^ 53 \<and> p * q = of_nat n
                  \<longrightarrow> js_times (Fin p) (Fin q) = Fin (p * q)"
    using times round_double_of_nat by auto
  have eff: "take 1 (fst (process_order env sender parsed)) =
               [Invoice \<lparr>product = JStr s, quantity = JNum (Fin q),
                         unit = member parsed K_unit, price = JNum (Fin p),
                         total = js_times (Fin p) (Fin q)\<rparr> (invoice_name env)]"
    by (simp add: process_order_price [OF t] po fst_invoice)
  from e pos po times exact eff show ?thesis
    by (intro exI [of _ p]) (simp add: member_price)
qed

text \<open>One and a half liters of oil at 120 come to 180.\<close>

theorem total_is_price_times_quantity_witness:
  "price_order (candidate (JStr (js ''OIL'')) (JNum (Fin (3 / 2))) (JStr (js ''liter'')))
     = Inr (Priced \<lparr>product = JStr (js ''OIL''), quantity = JNum (Fin (3 / 2)),
                     unit = JStr (js ''liter''), price = JNum (Fin 120), total = Fin 180\<rparr>)"
proof -
  let ?cand = "candidate (JStr (js ''OIL'')) (JNum (Fin (3 / 2))) (JStr (js ''liter''))"
  let ?entry = "JObj [(js ''price'', JNum (Fin 120))]"
  have h1: "get ?cand K_product = Inr (JStr (js ''OIL''))"
    by (simp add: candidate_def own_def js_def)
  have h2: "map_of PRODUCTS (toLowerCase (js ''OIL'')) = Some ?entry" by code_simp
  have h3: "get ?cand K_quantity = Inr (JNum (Fin (3 / 2)))"
    by (simp add: candidate_def own_def js_def)
  have h4: "(0::rat) < 3 / 2" by simp
  have u: "member ?cand K_unit = JStr (js ''liter'')"
    by (simp add: candidate_def member_def own_def js_def)
  from total_is_price_times_quantity [OF h1 h2 h3 h4]
  obtain p where p: "member ?entry K_price = JNum (Fin p)"
    and po: "price_order ?cand =
               Inr (Priced \<lparr>product = JStr (js ''OIL''), quantity = JNum (Fin (3 / 2)),
                             unit = member ?cand K_unit, price = JNum (Fin p),
                             total = js_times (Fin p) (Fin (3 / 2))\<rparr>)"
    and ex: "\<forall>n. 0 < n \<and> n < 2 ^ 53 \<and> p * (3 / 2) = of_nat n
                  \<longrightarrow> js_times (Fin p) (Fin (3 / 2)) = Fin (p * (3 / 2))"
    by blast
  from p have p120: "p = 120" by (simp add: member_price)
  have "(0::nat) < 180 \<and> (180::nat) < 2 ^ 53 \<and> (120::rat) * (3 / 2) = of_nat 180" by simp
  with ex p120 have "js_times (Fin 120) (Fin (3 / 2)) = Fin 180" by fastforce
  with po p120 u show ?thesis by simp
qed

subsection \<open>Products that are not in the catalog\<close>

text \<open>
  For a name that is no key of \<open>PRODUCTS\<close> and no member a plain object inherits, the
  pricing step finds no product, and the handler tells the sender so and does nothing
  else.
\<close>

lemma product_not_found:
  assumes "get parsed K_product = Inr (JStr s)"
    and "map_of PRODUCTS (toLowerCase s) = None"
    and "object_prototype (toLowerCase s) = JUndefined"
  shows "price_order parsed = Inr ProductNotFound"
    and "fst (process_order env sender parsed)
           = [SendText sender (Lit (js ''Product not found.''))]"
proof -
  from assms(2,3) have "lookup PRODUCTS (toLowerCase s) = JUndefined"
    by (simp add: lookup_def)
  then show p: "price_order parsed = Inr ProductNotFound"
    by (simp add: price_order_string [OF assms(1)])
  have "truthy parsed" using assms(1) by (rule string_product_truthy)
  then show "fst (process_order env sender parsed)
           = [SendText sender (Lit (js ''Product not found.''))]"
    by (simp add: process_order_price p fst_notify ret_def split: settled.splits)
qed

text \<open>
  C3 fails at the names a plain object inherits. \<open>constructor\<close> is no key of \<open>PRODUCTS\<close>,
  yet the lookup finds the member of that name that \<open>PRODUCTS\<close> inherits, which is
  truthy: the step builds an order with no price and a total that is not a number, and
  the handler writes the invoice and confirms the order instead of telling the sender
  that the product was not found.
\<close>

theorem inherited_name_is_priced:
  "map_of PRODUCTS (toLowerCase (js ''constructor'')) = None
   \<and> price_order (candidate (JStr (js ''constructor'')) (JNum (Fin 1)) (JStr (js ''kg'')))
     = Inr (Priced \<lparr>product = JStr (js ''constructor''), quantity = JNum (Fin 1),
                     unit = JStr (js ''kg''), price = JUndefined, total = NaN\<rparr>)
   \<and> process_order (example_env Pending) (JStr (js ''15551234567''))
       (candidate (JStr (js ''constructor'')) (JNum (Fin 1)) (JStr (js ''kg'')))
     = ([Invoice \<lparr>product = JStr (js ''constructor''), quantity = JNum (Fin 1),
                   unit = JStr (js ''kg''), price = JUndefined, total = NaN\<rparr>
           (js ''invoice-1700000000000.pdf''),
         SendText (JStr (js ''15551234567''))
           (OrderConfirmed (JStr (js ''constructor'')) NaN)],
        Returns (SendStatus 200))"
proof -
  let ?cand = "candidate (JStr (js ''constructor'')) (JNum (Fin 1)) (JStr (js ''kg''))"
  let ?ord = "\<lparr>product = JStr (js ''constructor''), quantity = JNum (Fin 1),
              unit = JStr (js ''kg''), price = JUndefined, total = NaN\<rparr>"
  have k: "map_of PRODUCTS (toLowerCase (js ''constructor'')) = None" by code_simp
  have p: "price_order ?cand = Inr (Priced ?ord)" by code_simp
  have t: "truthy ?cand" by (simp add: candidate_def)
  have "process_order (example_env Pending) (JStr (js ''15551234567'')) ?cand =
          ([Invoice ?ord (invoice_name (example_env Pending)),
            SendText (JStr (js ''15551234567''))
              (OrderConfirmed (product ?ord) (total ?ord))],
           Returns (SendStatus 200))"
    by (rule process_order_resolved [OF t p])
      (simp_all add: example_env_def to_string_throws_def)
  with k p show ?thesis by (simp add: example_invoice_name)
qed

subsection \<open>Letter case in the lookup\<close>

text \<open>
  C4, as amended. The lookup of a product lowers its name first, so every name and its
  lower case find the same; and for every name of ASCII characters the upper case finds
  the same too.
\<close>

theorem lookup_ignores_case:
  "find_product (candidate (JStr (toLowerCase s)) q u) = find_product (candidate (JStr s) q u)
   \<and> (is_ascii s \<longrightarrow>
        find_product (candidate (JStr (toUpperCase s)) q u)
          = find_product (candidate (JStr s) q u))"
  by (simp add: find_product_candidate toLowerCase_idem toLowerCase_toUpperCase)

text \<open>\<open>sugar\<close>, \<open>Sugar\<close> and \<open>SUGAR\<close> find the entry with the price 40.\<close>

theorem lookup_ignores_case_witness:
  "find_product (candidate (JStr (js ''sugar'')) (JNum (Fin 1)) (JStr (js ''kg'')))
     = Inr (JObj [(js ''price'', JNum (Fin 40))])
   \<and> find_product (candidate (JStr (js ''Sugar'')) (JNum (Fin 1)) (JStr (js ''kg'')))
     = Inr (JObj [(js ''price'', JNum (Fin 40))])
   \<and> find_product (candidate (JStr (js ''SUGAR'')) (JNum (Fin 1)) (JStr (js ''kg'')))
     = Inr (JObj [(js ''price'', JNum (Fin 40))])"
proof -
  let ?find = "\<lambda>s. find_product (candidate (JStr s) (JNum (Fin 1)) (JStr (js ''kg'')))"
  have a: "is_ascii (js ''Sugar'')" by code_simp
  have l: "toLowerCase (js ''Sugar'') = js ''sugar''" by code_simp
  have u: "toUpperCase (js ''Sugar'') = js ''SUGAR''" by code_simp
  have f: "?find (js ''Sugar'') = Inr (JObj [(js ''price'', JNum (Fin 40))])" by code_simp
  from lookup_ignores_case [of "js ''Sugar''" "JNum (Fin 1)" "JStr (js ''kg'')"] a
  have "?find (toLowerCase (js ''Sugar'')) = ?find (js ''Sugar'')"
    and "?find (toUpperCase (js ''Sugar'')) = ?find (js ''Sugar'')"
    by simp_all
  with l u f show ?thesis by simp
qed

text \<open>
  C4 as it was stated, for every string, fails beyond ASCII: with a long s (U+017F) for
  its first letter the name finds nothing, and its upper case, \<open>SUGAR\<close>, finds sugar.
\<close>

theorem lookup_case_counterexample:
  "find_product (candidate (JStr (0x17F # js ''ugar'')) (JNum (Fin 1)) (JStr (js ''kg'')))
     = Inr JUndefined
   \<and> toUpperCase (0x17F # js ''ugar'') = js ''SUGAR''
   \<and> find_product (candidate (JStr (toUpperCase (0x17F # js ''ugar''))) (JNum (Fin 1))
        (JStr (js ''kg'')))
     = Inr (JObj [(js ''price'', JNum (Fin 40))])"
  by code_simp

subsection \<open>The extractor\<close>

text \<open>
  C5, as amended. \<open>parseOrderAI\<close> never throws, whatever the message and whatever the
  model does. When the message cannot be converted to a string for the prompt, the model
  is not called and the result is \<open>null\<close>; no string is such a message. Otherwise the
  model is called with the message. When the call fails, or when the text of its answer
  is not JSON, the result is \<open>null\<close>, which the handler takes for a failed extraction:
  it tells the sender that the order was not understood. When the text is JSON the
  result is the value it denotes, whatever its fields are. When the call never settles
  there is no result.
\<close>

theorem extractor_never_throws:
  "snd (parseOrderAI env message) \<noteq> Throws e
   \<and> (unprintable message \<longrightarrow> parseOrderAI env message = ([], Returns JNull))
   \<and> \<not> unprintable (JStr s)
   \<and> (\<not> unprintable message \<and> generateContent env message = Rejected x
        \<longrightarrow> parseOrderAI env message = ([Generate message], Returns JNull))
   \<and> (\<not> unprintable message \<and> generateContent env message = Resolved answer
          \<and> JSON_parse answer = Inl x
        \<longrightarrow> parseOrderAI env message = ([Generate message], Returns JNull))
   \<and> (\<not> unprintable message \<and> generateContent env message = Resolved answer
          \<and> JSON_parse answer = Inr v
        \<longrightarrow> parseOrderAI env message = ([Generate message], Returns v))
   \<and> (\<not> unprintable message \<and> generateContent env message = Pending
        \<longrightarrow> parseOrderAI env message = ([Generate message], Hangs))
   \<and> \<not> truthy JNull
   \<and> fst (process_order env sender JNull)
       = [SendText sender (Lit (js ''Sorry, I couldn't understand the order.''))]"
  by (auto simp: parseOrderAI_eq process_order_def fst_notify ret_def
      split: settled.splits sum.splits)

text \<open>
  A model that cannot be reached, one that answers in prose, one that answers with an
  object that has a product and nothing else, and one that never answers; and a message
  that is an object with a member \<open>toString\<close>.
\<close>

theorem extractor_never_throws_witness:
  "parseOrderAI (example_env (Rejected ServiceError)) (JStr (js ''2 kg sugar''))
     = ([Generate (JStr (js ''2 kg sugar''))], Returns JNull)
   \<and> parseOrderAI (example_env (Resolved (js ''Sure! Here is the order: 2 kg sugar'')))
       (JStr (js ''2 kg sugar''))
     = ([Generate (JStr (js ''2 kg sugar''))], Returns JNull)
   \<and> parseOrderAI (example_env (Resolved (js ''{\"product\":\"sugar\"}''))) (JStr [])
     = ([Generate (JStr [])], Returns (JObj [(js ''product'', JStr (js ''sugar''))]))
   \<and> parseOrderAI (example_env Pending) (JStr []) = ([Generate (JStr [])], Hangs)
   \<and> parseOrderAI (example_env Pending) (JObj [(js ''toString'', JNum (Fin 1))])
     = ([], Returns JNull)"
proof -
  let ?m = "JStr (js ''2 kg sugar'')"
  let ?o = "JObj [(js ''toString'', JNum (Fin 1))]"
  have u: "unprintable ?o" by simp
  let ?chat = "js ''Sure! Here is the order: 2 kg sugar''"
  let ?json = "js ''{\"product\":\"sugar\"}''"
  have a: "generateContent (example_env (Rejected ServiceError)) ?m = Rejected ServiceError"
    by (simp add: example_env_def)
  have b: "generateContent (example_env (Resolved ?chat)) ?m = Resolved ?chat
           \<and> JSON_parse ?chat = Inl SyntaxError"
  proof
    show "generateContent (example_env (Resolved ?chat)) ?m = Resolved ?chat"
      by (simp add: example_env_def)
    show "JSON_parse ?chat = Inl SyntaxError" by code_simp
  qed
  have c: "generateContent (example_env (Resolved ?json)) (JStr []) = Resolved ?json
           \<and> JSON_parse ?json = Inr (JObj [(js ''product'', JStr (js ''sugar''))])"
  proof
    show "generateContent (example_env (Resolved ?json)) (JStr []) = Resolved ?json"
      by (simp add: example_env_def)
    show "JSON_parse ?json = Inr (JObj [(js ''product'', JStr (js ''sugar''))])"
      by code_simp
  qed
  from extractor_never_throws [of "example_env (Rejected ServiceError)" ?m _ _ ServiceError] a
  have 1: "parseOrderAI (example_env (Rejected ServiceError)) ?m = ([Generate ?m], Returns JNull)"
    by blast
  from extractor_never_throws [of "example_env (Resolved ?chat)" ?m _ _ SyntaxError ?chat] b
  have 2: "parseOrderAI (example_env (Resolved ?chat)) ?m = ([Generate ?m], Returns JNull)"
    by blast
  from extractor_never_throws [of "example_env (Resolved ?json)" "JStr []" _ _ _ ?json
      "JObj [(js ''product'', JStr (js ''sugar''))]"] c
  have 3: "parseOrderAI (example_env (Resolved ?json)) (JStr [])
           = ([Generate (JStr [])], Returns (JObj [(js ''product'', JStr (js ''sugar''))]))"
    by blast
  have d: "generateContent (example_env Pending) (JStr []) = Pending"
    by (simp add: example_env_def)
  from extractor_never_throws [of "example_env Pending" "JStr []"] d
  have 4: "parseOrderAI (example_env Pending) (JStr []) = ([Generate (JStr [])], Hangs)"
    by blast
  from extractor_never_throws [of "example_env Pending" ?o] u
  have 5: "parseOrderAI (example_env Pending) ?o = ([], Returns JNull)"
    by blast
  from 1 2 3 4 5 show ?thesis by simp
qed

text \<open>
  C5 as it was stated fails for an answer with missing fields: the object with a
  quantity and no product is returned as it is, and it is truthy, so the handler does
  not take it for a failed extraction.
\<close>

theorem extractor_counterexample:
  "parseOrderAI (example_env (Resolved (js ''{\"quantity\":2}''))) (JStr (js ''two of the usual''))
     = ([Generate (JStr (js ''two of the usual''))],
        Returns (JObj [(js ''quantity'', JNum (Fin 2))]))
   \<and> truthy (JObj [(js ''quantity'', JNum (Fin 2))])"
proof -
  have "JSON_parse (js ''{\"quantity\":2}'') = Inr (JObj [(js ''quantity'', JNum (Fin 2))])"
    by code_simp
  then show ?thesis by (simp add: parseOrderAI_eq example_env_def)
qed

subsection \<open>Webhook verification\<close>

text \<open>
  C6, as amended. In the first file a request whose mode is \<open>subscribe\<close> and whose token
  is the configured, non-empty secret is answered 200 with the challenge as it came; one
  with a mode and a non-empty token that is not the secret is answered 403; one whose
  mode or token is missing is answered 400. The second file answers the first two
  alike, and answers 403, never 400, when the mode or the token is missing.
\<close>

theorem webhook_verification:
  "(hub_mode q = JStr (js ''subscribe'') \<and> hub_verify_token q = JStr t \<and> t \<noteq> []
      \<and> VERIFY_TOKEN env = JStr t
    \<longrightarrow> get_webhook env q = Send 200 (hub_challenge q)
        \<and> get_webhook_2 env q = Send 200 (hub_challenge q))
   \<and> (truthy (hub_mode q) \<and> hub_verify_token q = JStr t \<and> t \<noteq> []
        \<and> VERIFY_TOKEN env = JStr secret \<and> t \<noteq> secret
      \<longrightarrow> get_webhook env q = SendStatus 403 \<and> get_webhook_2 env q = SendStatus 403)
   \<and> ((hub_mode q = JUndefined \<or> hub_verify_token q = JUndefined)
        \<and> VERIFY_TOKEN env = JStr secret
      \<longrightarrow> get_webhook env q = SendStatus 400 \<and> get_webhook_2 env q = SendStatus 403)"
  by (auto simp: get_webhook_def get_webhook_2_def Let_def js_def)

text \<open>
  The three cases at concrete requests, against the secret \<open>secret\<close>: the right token,
  a wrong token, no token.
\<close>

theorem webhook_verification_witness:
  "(get_webhook (example_env Pending)
      \<lparr>hub_mode = JStr (js ''subscribe''), hub_verify_token = JStr (js ''secret''),
       hub_challenge = JStr (js ''1158201444'')\<rparr> = Send 200 (JStr (js ''1158201444''))
    \<and> get_webhook_2 (example_env Pending)
      \<lparr>hub_mode = JStr (js ''subscribe''), hub_verify_token = JStr (js ''secret''),
       hub_challenge = JStr (js ''1158201444'')\<rparr> = Send 200 (JStr (js ''1158201444'')))
   \<and> (get_webhook (example_env Pending)
      \<lparr>hub_mode = JStr (js ''subscribe''), hub_verify_token = JStr (js ''guess''),
       hub_challenge = JStr (js ''1158201444'')\<rparr> = SendStatus 403
    \<and> get_webhook_2 (example_env Pending)
      \<lparr>hub_mode = JStr (js ''subscribe''), hub_verify_token = JStr (js ''guess''),
       hub_challenge = JStr (js ''1158201444'')\<rparr> = SendStatus 403)
   \<and> (get_webhook (example_env Pending)
      \<lparr>hub_mode = JStr (js ''subscribe''), hub_verify_token = JUndefined,
       hub_challenge = JStr (js ''1158201444'')\<rparr> = SendStatus 400
    \<and> get_webhook_2 (example_env Pending)
      \<lparr>hub_mode = JStr (js ''subscribe''), hub_verify_token = JUndefined,
       hub_challenge = JStr (js ''1158201444'')\<rparr> = SendStatus 403)"
proof -
  let ?env = "example_env Pending"
  let ?q = "\<lambda>token. \<lparr>hub_mode = JStr (js ''subscribe''), hub_verify_token = token,
                       hub_challenge = JStr (js ''1158201444'')\<rparr>"
  have secret: "VERIFY_TOKEN ?env = JStr (js ''secret'')"
    by (simp add: example_env_def)
  have right: "js ''secret'' \<noteq> []" and wrong: "js ''guess'' \<noteq> []"
    and differ: "js ''guess'' \<noteq> js ''secret''"
    by (simp_all add: js_def)
  from webhook_verification [of "?q (JStr (js ''secret''))" "js ''secret''" ?env] secret right
  have a: "get_webhook ?env (?q (JStr (js ''secret''))) = Send 200 (JStr (js ''1158201444''))
         \<and> get_webhook_2 ?env (?q (JStr (js ''secret''))) = Send 200 (JStr (js ''1158201444''))"
    by simp
  from webhook_verification [of "?q (JStr (js ''guess''))" "js ''guess''" ?env "js ''secret''"]
    secret wrong differ
  have b: "get_webhook ?env (?q (JStr (js ''guess''))) = SendStatus 403
         \<and> get_webhook_2 ?env (?q (JStr (js ''guess''))) = SendStatus 403"
    by (simp add: js_def)
  from webhook_verification [of "?q JUndefined" _ ?env "js ''secret''"] secret
  have c: "get_webhook ?env (?q JUndefined) = SendStatus 400
         \<and> get_webhook_2 ?env (?q JUndefined) = SendStatus 403"
    by simp
  from a b c show ?thesis by simp
qed

text \<open>
  C6 as it was stated fails in the second file: a request with neither mode nor token is
  answered 403 there, not 400.
\<close>

theorem webhook_verification_counterexample:
  "get_webhook_2 (example_env Pending)
     \<lparr>hub_mode = JUndefined, hub_verify_token = JUndefined, hub_challenge = JUndefined\<rparr>
   = SendStatus 403
   \<and> SendStatus 403 \<noteq> SendStatus 400"
  by (simp add: get_webhook_2_def example_env_def)

subsection \<open>Deliveries without a message\<close>

text \<open>
  Where the condition of the handler comes out falsy, both files answer 200 and do
  nothing else.
\<close>

lemma absent_path_acknowledged:
  assumes "has_messages data = Inr present" and "\<not> truthy present"
  shows "post_webhook env data = ([], Returns (SendStatus 200))"
    and "post_webhook_2 env data = ([], Returns (SendStatus 200))"
  using assms
  by (simp_all add: post_webhook_def post_webhook_2_def bind_pure_Inr catch_def ret_def)

text \<open>
  C7 fails where a link of the path is there and the next one is not: for a body whose
  \<open>entry\<close> is the empty array the condition reads \<open>changes\<close> from \<open>undefined\<close>, which
  throws, and both files answer 500, not 200. They do nothing else.
\<close>

theorem empty_entry_answers_500:
  "post_webhook env (JObj [(js ''entry'', JArr [])]) = ([], Returns (SendStatus 500))
   \<and> post_webhook_2 env (JObj [(js ''entry'', JArr [])]) = ([], Returns (SendStatus 500))"
  by (simp add: post_webhook_def post_webhook_2_def has_messages_def js_and_def then_get_def
      then_index0_def own_def js_def bind_pure_Inl catch_def ret_def)

subsection \<open>Two kilograms of sugar\<close>

text \<open>
  C8. \<open>PRODUCTS\<close> has sugar at 40. The answer of the model to the message
  \<open>2 kg sugar\<close> parses to the candidate order of sugar, 2, kg; the pricing step makes of
  it the order with the price 40 and the total 80; and the handler, given that answer,
  writes the invoice of this order and confirms it.
\<close>

theorem sugar_scenario:
  "map_of PRODUCTS (js ''sugar'') = Some (JObj [(js ''price'', JNum (Fin 40))])
   \<and> JSON_parse (js ''{\"product\":\"sugar\",\"quantity\":2,\"unit\":\"kg\"}'')
     = Inr (candidate (JStr (js ''sugar'')) (JNum (Fin 2)) (JStr (js ''kg'')))
   \<and> price_order (candidate (JStr (js ''sugar'')) (JNum (Fin 2)) (JStr (js ''kg'')))
     = Inr (Priced \<lparr>product = JStr (js ''sugar''), quantity = JNum (Fin 2),
                     unit = JStr (js ''kg''), price = JNum (Fin 40), total = Fin 80\<rparr>)
   \<and> post_webhook
       (example_env (Resolved (js ''{\"product\":\"sugar\",\"quantity\":2,\"unit\":\"kg\"}'')))
       (delivery (JStr (js ''15551234567'')) (JStr (js ''2 kg sugar'')))
     = ([Generate (JStr (js ''2 kg sugar'')),
         Invoice \<lparr>product = JStr (js ''sugar''), quantity = JNum (Fin 2),
                   unit = JStr (js ''kg''), price = JNum (Fin 40), total = Fin 80\<rparr>
           (js ''invoice-1700000000000.pdf''),
         SendText (JStr (js ''15551234567'')) (OrderConfirmed (JStr (js ''sugar'')) (Fin 80))],
        Returns (SendStatus 200))"
proof -
  have k: "map_of PRODUCTS (js ''sugar'') = Some (JObj [(js ''price'', JNum (Fin 40))])"
    by code_simp
  have j: "JSON_parse (js ''{\"product\":\"sugar\",\"quantity\":2,\"unit\":\"kg\"}'')
             = Inr (candidate (JStr (js ''sugar'')) (JNum (Fin 2)) (JStr (js ''kg'')))"
    by code_simp
  have p: "price_order (candidate (JStr (js ''sugar'')) (JNum (Fin 2)) (JStr (js ''kg'')))
     = Inr (Priced \<lparr>product = JStr (js ''sugar''), quantity = JNum (Fin 2),
                     unit = JStr (js ''kg''), price = JNum (Fin 40), total = Fin 80\<rparr>)"
    by code_simp
  from k j p sugar_delivery show ?thesis by (intro conjI)
qed

subsection \<open>The two files\<close>

text \<open>
  C9. The second file has the same \<open>PRODUCTS\<close>, the same \<open>parseOrderAI\<close>, the same lookup
  and the same order as the first. On every delivery and in every environment the two
  POST handlers make the same calls in the same order when the confirmations are left
  out; when the first confirms an order the second does too, with the document in place
  of the text; and when the first confirms nothing the two do and answer the same.
\<close>

theorem copies_agree:
  "PRODUCTS_2 = PRODUCTS
   \<and> parseOrderAI_2 env message = parseOrderAI env message
   \<and> find_product_2 parsed = find_product parsed
   \<and> make_order_2 parsed found = make_order parsed found
   \<and> filter (\<lambda>e. \<not> is_confirmation e) (fst (post_webhook_2 env data))
       = filter (\<lambda>e. \<not> is_confirmation e) (fst (post_webhook env data))
   \<and> (list_ex is_confirmation (fst (post_webhook env data))
        \<longrightarrow> list_ex is_confirmation (fst (post_webhook_2 env data)))
   \<and> (\<not> list_ex is_confirmation (fst (post_webhook env data))
        \<longrightarrow> post_webhook_2 env data = post_webhook env data)"
  using agree_post_webhook [of env data] by (simp add: PRODUCTS_2_eq find_product_2_eq core_2 agree_def)

text \<open>
  An order for flour is not confirmed, and the second file does what the first does; an
  order for sugar is confirmed by the first file, and by the second.
\<close>

theorem copies_agree_witness:
  "post_webhook_2
     (example_env (Resolved (js ''{\"product\":\"flour\",\"quantity\":1,\"unit\":\"kg\"}'')))
     (delivery (JStr (js ''15551234567'')) (JStr (js ''1 kg flour'')))
   = ([Generate (JStr (js ''1 kg flour'')),
       SendText (JStr (js ''15551234567'')) (Lit (js ''Product not found.''))],
      Returns (SendStatus 200))
   \<and> list_ex is_confirmation
       (fst (post_webhook_2
          (example_env (Resolved (js ''{\"product\":\"sugar\",\"quantity\":2,\"unit\":\"kg\"}'')))
          (delivery (JStr (js ''15551234567'')) (JStr (js ''2 kg sugar'')))))"
proof -
  let ?flour = "example_env (Resolved (js ''{\"product\":\"flour\",\"quantity\":1,\"unit\":\"kg\"}''))"
  let ?sugar = "example_env (Resolved (js ''{\"product\":\"sugar\",\"quantity\":2,\"unit\":\"kg\"}''))"
  let ?d1 = "delivery (JStr (js ''15551234567'')) (JStr (js ''1 kg flour''))"
  let ?d2 = "delivery (JStr (js ''15551234567'')) (JStr (js ''2 kg sugar''))"
  have none: "\<not> list_ex is_confirmation (fst (post_webhook ?flour ?d1))"
    by (simp add: flour_delivery)
  have some: "list_ex is_confirmation (fst (post_webhook ?sugar ?d2))"
    by (simp add: sugar_delivery)
  from copies_agree [where env = ?flour and data = ?d1] none
  have "post_webhook_2 ?flour ?d1 = post_webhook ?flour ?d1" by blast
  moreover from copies_agree [where env = ?sugar and data = ?d2] some
  have "list_ex is_confirmation (fst (post_webhook_2 ?sugar ?d2))" by blast
  ultimately show ?thesis by (simp add: flour_delivery)
qed

subsection \<open>Answers without a product\<close>

text \<open>
  C10. When the model is called with the text of the message, and its answer parses to
  a truthy value whose \<open>product\<close> is not a string, the pricing step throws a TypeError,
  which only the catch block of the handler takes up: the handler answers 500 and sends
  the sender nothing. The model is called whenever the text can be converted to a
  string, as every string can.
\<close>

theorem missing_product_answers_500:
  assumes "carries data sender txt"
    and "generateContent env txt = Resolved answer"
    and "JSON_parse answer = Inr parsed"
    and "truthy parsed"
    and "\<forall>s. get parsed K_product \<noteq> Inr (JStr s)"
    and "\<not> unprintable txt"
  shows "price_order parsed = Inl TypeError
         \<and> post_webhook env data = ([Generate txt], Returns (SendStatus 500))"
proof -
  from assms(4) have "\<not> nullish parsed" by (cases parsed) auto
  then obtain v where v: "get parsed K_product = Inr v" by (cases parsed) auto
  with assms(5) have fp: "find_product parsed = Inl TypeError"
    by (cases v) (auto simp: find_product_def)
  then have po: "price_order parsed = Inl TypeError" by (simp add: price_order_def)
  have "process_order env sender parsed = ([], Throws TypeError)"
    using assms(4) po by (simp add: process_order_price)
  then show ?thesis
    using po assms(1,2,3,6)
    by (simp add: post_webhook_carries parseOrderAI_eq bind_def catch_def ret_def)
qed

text \<open>An answer with a quantity and no product, to a delivery with a text message.\<close>

theorem missing_product_answers_500_witness:
  "price_order (JObj [(js ''quantity'', JNum (Fin 2))]) = Inl TypeError
   \<and> post_webhook (example_env (Resolved (js ''{\"quantity\":2}'')))
       (delivery (JStr (js ''15551234567'')) (JStr (js ''two of the usual'')))
     = ([Generate (JStr (js ''two of the usual''))], Returns (SendStatus 500))"
proof -
  let ?answer = "js ''{\"quantity\":2}''"
  let ?env = "example_env (Resolved ?answer)"
  let ?parsed = "JObj [(js ''quantity'', JNum (Fin 2))]"
  let ?sender = "JStr (js ''15551234567'')"
  let ?txt = "JStr (js ''two of the usual'')"
  have o: "js_or ?txt (JStr []) = ?txt" by (simp add: js_or_def js_def)
  have c: "carries (delivery ?sender ?txt) ?sender ?txt"
    using carries_delivery [of ?sender ?txt] by (simp only: o)
  have g: "generateContent ?env ?txt = Resolved ?answer" by (simp add: example_env_def)
  have j: "JSON_parse ?answer = Inr ?parsed" by code_simp
  have t: "truthy ?parsed" by simp
  have n: "\<forall>s. get ?parsed K_product \<noteq> Inr (JStr s)" by (simp add: own_def js_def)
  have u: "\<not> unprintable ?txt" by simp
  from missing_product_answers_500 [OF c g j t n u] show ?thesis .
qed

end
